theory Spec2Isabelle
  imports Complex_Main "HOL-Library.Char_ord" "HOL-Library.List_Lexorder"
    "HOL-Library.Product_Lexorder"
begin

chapter \<open>The embedding\<close>

section \<open>Numeric cells\<close>

text \<open>
  A cell of a pandas Series or DataFrame of dtype float64: a finite value, as a
  real number, or one of the three special values, which are kept because the
  code's behaviour on missing data (\<open>dropna\<close>, the guard \<open>volatility > 0\<close>) depends
  on them. The operations of this section are the exact ones on these values,
  and the tables of prices and returns are computed with them. The metrics,
  whose values depend on how float64 rounds, are computed with the rounded
  operations of the next section. The sign of zero is not kept.
\<close>

datatype fval = NaN | NInf | PInf | Fin real

fun isna :: "fval \<Rightarrow> bool" where
  "isna NaN = True"
| "isna _ = False"

fun fneg :: "fval \<Rightarrow> fval" where
  "fneg NaN = NaN"
| "fneg NInf = PInf"
| "fneg PInf = NInf"
| "fneg (Fin x) = Fin (- x)"

fun fadd :: "fval \<Rightarrow> fval \<Rightarrow> fval" where
  "fadd NaN _ = NaN"
| "fadd _ NaN = NaN"
| "fadd PInf NInf = NaN"
| "fadd NInf PInf = NaN"
| "fadd PInf _ = PInf"
| "fadd _ PInf = PInf"
| "fadd NInf _ = NInf"
| "fadd _ NInf = NInf"
| "fadd (Fin x) (Fin y) = Fin (x + y)"

definition fsub :: "fval \<Rightarrow> fval \<Rightarrow> fval" where
  "fsub a b = fadd a (fneg b)"

text \<open>The sign of a cell: 1, -1, 0, or none for NaN.\<close>

fun fsign :: "fval \<Rightarrow> int option" where
  "fsign NaN = None"
| "fsign NInf = Some (- 1)"
| "fsign PInf = Some 1"
| "fsign (Fin x) = Some (if 0 < x then 1 else if x < 0 then - 1 else 0)"

definition inf_of_sign :: "int \<Rightarrow> fval" where
  "inf_of_sign s = (if 0 < s then PInf else if s < 0 then NInf else NaN)"

fun fmul :: "fval \<Rightarrow> fval \<Rightarrow> fval" where
  "fmul (Fin x) (Fin y) = Fin (x * y)"
| "fmul a b =
     (case (fsign a, fsign b) of
        (Some s, Some t) \<Rightarrow> inf_of_sign (s * t)
      | _ \<Rightarrow> NaN)"

text \<open>
  Division of float64 scalars and arrays in numpy: dividing by zero gives an
  infinity (or NaN for 0/0) with a warning, never an exception.
\<close>

fun fdiv :: "fval \<Rightarrow> fval \<Rightarrow> fval" where
  "fdiv NaN _ = NaN"
| "fdiv _ NaN = NaN"
| "fdiv (Fin x) (Fin y) =
     (if y \<noteq> 0 then Fin (x / y)
      else if 0 < x then PInf else if x < 0 then NInf else NaN)"
| "fdiv (Fin x) _ = Fin 0"
| "fdiv a (Fin y) =
     (case fsign a of
        Some s \<Rightarrow> inf_of_sign (if y < 0 then - s else s)
      | None \<Rightarrow> NaN)"
| "fdiv _ _ = NaN"

text \<open>\<open>np.log\<close>, \<open>np.log1p\<close>, \<open>np.exp\<close> and \<open>np.sqrt\<close> on a cell.\<close>

fun flog :: "fval \<Rightarrow> fval" where
  "flog NaN = NaN"
| "flog NInf = NaN"
| "flog PInf = PInf"
| "flog (Fin x) = (if 0 < x then Fin (ln x) else if x = 0 then NInf else NaN)"

definition flog1p :: "fval \<Rightarrow> fval" where
  "flog1p a = flog (fadd (Fin 1) a)"

fun fexp :: "fval \<Rightarrow> fval" where
  "fexp NaN = NaN"
| "fexp NInf = Fin 0"
| "fexp PInf = PInf"
| "fexp (Fin x) = Fin (exp x)"

fun fsqrt :: "fval \<Rightarrow> fval" where
  "fsqrt NaN = NaN"
| "fsqrt NInf = NaN"
| "fsqrt PInf = PInf"
| "fsqrt (Fin x) = (if 0 \<le> x then Fin (sqrt x) else NaN)"

text \<open>The comparison \<open>a > 0\<close>: false for NaN.\<close>

fun fpos :: "fval \<Rightarrow> bool" where
  "fpos PInf = True"
| "fpos (Fin x) = (0 < x)"
| "fpos _ = False"

type_synonym series = "fval list"

definition dropna_series :: "series \<Rightarrow> series" where
  "dropna_series s = filter (\<lambda>c. \<not> isna c) s"

definition fsum :: "series \<Rightarrow> fval" where
  "fsum s = foldl fadd (Fin 0) s"

section \<open>Rounding\<close>

text \<open>
  IEEE 754 binary64 with the default rounding, to nearest and ties to even: 53
  significant bits, the binary exponents -1022 to 1023, gradual underflow below
  them and overflow to an infinity. \<open>exponent x\<close> is the binary exponent of a
  non-zero \<open>x\<close>, the \<open>e\<close> with \<open>2^e \<le> |x| < 2^(e+1)\<close>; a result is rounded to a
  multiple of the unit in the last place, \<open>2^(e-52)\<close>.
\<close>

definition round_half_even :: "real \<Rightarrow> int" where
  "round_half_even y =
     (let f = \<lfloor>y\<rfloor>; r = y - of_int f
      in if r < 1/2 then f else if 1/2 < r then f + 1 else if even f then f else f + 1)"

definition exponent :: "real \<Rightarrow> int" where
  "exponent x = \<lfloor>log 2 \<bar>x\<bar>\<rfloor>"

definition rnd64 :: "real \<Rightarrow> fval" where
  "rnd64 x =
     (if x = 0 then Fin 0
      else
        (let e = max (exponent x) (- 1022);
             ulp = 2 powr (of_int e - 52);
             y = of_int (round_half_even (x / ulp)) * ulp
         in if 2 powr 1024 \<le> \<bar>y\<bar> then (if 0 < x then PInf else NInf) else Fin y))"

text \<open>
  An arithmetic: how the exact result of an operation is rounded, and the two
  library functions \<open>np.exp\<close> and \<open>np.log1p\<close>. Addition, subtraction,
  multiplication, division and the square root are correctly rounded in IEEE
  754: the exact result, rounded once.
\<close>

record arith =
  rnd :: "real \<Rightarrow> fval"
  np_exp :: "fval \<Rightarrow> fval"
  np_log1p :: "fval \<Rightarrow> fval"

definition round_to :: "arith \<Rightarrow> fval \<Rightarrow> fval" where
  "round_to ar v = (case v of Fin x \<Rightarrow> rnd ar x | _ \<Rightarrow> v)"

definition radd :: "arith \<Rightarrow> fval \<Rightarrow> fval \<Rightarrow> fval" where
  "radd ar a b = round_to ar (fadd a b)"

definition rsub :: "arith \<Rightarrow> fval \<Rightarrow> fval \<Rightarrow> fval" where
  "rsub ar a b = round_to ar (fsub a b)"

definition rmul :: "arith \<Rightarrow> fval \<Rightarrow> fval \<Rightarrow> fval" where
  "rmul ar a b = round_to ar (fmul a b)"

definition rdiv :: "arith \<Rightarrow> fval \<Rightarrow> fval \<Rightarrow> fval" where
  "rdiv ar a b = round_to ar (fdiv a b)"

definition rsqrt :: "arith \<Rightarrow> fval \<Rightarrow> fval" where
  "rsqrt ar a = round_to ar (fsqrt a)"

text \<open>
  float64 as numpy computes with it: binary64 rounding, and \<open>exp\<close> and \<open>log1p\<close> from
  the mathematical library of the platform. IEEE 754 does not fix the last
  place of what these two return, so the library is a parameter.
\<close>

record math_library =
  lib_exp :: "fval \<Rightarrow> fval"
  lib_log1p :: "fval \<Rightarrow> fval"

definition binary64 :: "math_library \<Rightarrow> arith" where
  "binary64 lm = \<lparr> rnd = rnd64, np_exp = lib_exp lm, np_log1p = lib_log1p lm \<rparr>"


text \<open>A mathematical library that returns the correctly rounded value.\<close>

definition rounded_library :: math_library where
  "rounded_library =
     \<lparr> lib_exp = (\<lambda>v. case fexp v of Fin x \<Rightarrow> rnd64 x | w \<Rightarrow> w),
       lib_log1p = (\<lambda>v. case flog1p v of Fin x \<Rightarrow> rnd64 x | w \<Rightarrow> w) \<rparr>"

section \<open>Performance metrics\<close>

text \<open>
  From \<open>analyze_portfolio\<close> (api.py lines 167-182, api\_simple.py lines 236-251, the
  same text in both). The two return series have been through \<open>dropna()\<close>:

  \<^verbatim>\<open>portfolio_cumulative = np.exp(np.log1p(portfolio_returns).cumsum()).sub(1)
total_portfolio_return = portfolio_cumulative.iloc[-1] if len(portfolio_cumulative) > 0 else 0
portfolio_volatility = portfolio_returns.std() * np.sqrt(252)
sharpe_ratio = (portfolio_returns.mean() * 252) / portfolio_volatility if portfolio_volatility > 0 else 0\<close>

  Every function of this section takes the arithmetic it computes with; the
  program computes with \<open>binary64\<close>.
\<close>

text \<open>
  The sum of a float64 array, \<open>values.sum()\<close>, which is numpy's \<open>add.reduce\<close> with its
  pairwise summation: fewer than 8 elements are added from left to right; up
  to 128 elements are added in 8 lanes (lane \<open>j\<close> takes the elements \<open>j\<close>, \<open>8 + j\<close>,
  \<open>16 + j\<close>, ...), the lanes are combined in pairs, and the elements after the last
  full group of 8 are added one by one; a longer array is cut in two, the first
  part of a length that is a multiple of 8, and the two sums are added. (With
  the optional package bottleneck, which the repository does not ask for, pandas
  adds from left to right; the two orders are the same on fewer than 8
  elements.)
  \<^verbatim>\<open>if (n < 8) {
    res = 0.;
    for (i = 0; i < n; i++) res += a[i];
    return res;
}
else if (n <= PW_BLOCKSIZE) {          /* 128 */
    r[0] = a[0]; ... r[7] = a[7];
    for (i = 8; i < n - (n % 8); i += 8) { r[0] += a[i + 0]; ... r[7] += a[i + 7]; }
    res = ((r[0] + r[1]) + (r[2] + r[3])) + ((r[4] + r[5]) + (r[6] + r[7]));
    for (; i < n; i++) res += a[i];
    return res;
}
else {
    n2 = n / 2; n2 -= n2 % 8;
    return pairwise_sum(a, n2) + pairwise_sum(a + n2, n - n2);
}\<close>
\<close>

definition lane :: "arith \<Rightarrow> series \<Rightarrow> nat \<Rightarrow> nat \<Rightarrow> fval" where
  "lane ar a m j = foldl (radd ar) (a ! j) (map (\<lambda>k. a ! (8 * k + j)) [1..<m div 8])"

function pairwise_sum :: "arith \<Rightarrow> series \<Rightarrow> fval" where
  "pairwise_sum ar a =
     (let n = length a in
      if n < 8 then foldl (radd ar) (Fin 0) a
      else if n \<le> 128 then
        (let m = n - n mod 8;
             res = radd ar (radd ar (radd ar (lane ar a m 0) (lane ar a m 1))
                                    (radd ar (lane ar a m 2) (lane ar a m 3)))
                           (radd ar (radd ar (lane ar a m 4) (lane ar a m 5))
                                    (radd ar (lane ar a m 6) (lane ar a m 7)))
         in foldl (radd ar) res (drop m a))
      else
        (let n2 = n div 2 - (n div 2) mod 8
         in radd ar (pairwise_sum ar (take n2 a)) (pairwise_sum ar (drop n2 a))))"
  by pat_completeness auto
termination
  by (relation "measure (\<lambda>(ar, a). length a)") auto

declare pairwise_sum.simps [simp del]

text \<open>
  pandas' reductions skip NaN: the NaN entries are replaced by 0 before the
  sum and are not counted.
\<close>

definition mask0 :: "series \<Rightarrow> series" where
  "mask0 s = map (\<lambda>x. if isna x then Fin 0 else x) s"

definition count :: "series \<Rightarrow> nat" where
  "count s = length (filter (\<lambda>x. \<not> isna x) s)"

text \<open>\<open>Series.mean()\<close>: the sum divided by the count; NaN for the empty series.\<close>

definition mean :: "arith \<Rightarrow> series \<Rightarrow> fval" where
  "mean ar s =
     (if count s > 0 then rdiv ar (pairwise_sum ar (mask0 s)) (Fin (real (count s))) else NaN)"

text \<open>
  \<open>Series.std()\<close>, the sample standard deviation (ddof = 1), computed in two
  passes; NaN when the series has fewer than two observations.
  \<^verbatim>\<open>avg = values.sum() / count
sqr = (avg - values) ** 2
result = sqr.sum() / d             # d = count - ddof
np.sqrt(result)\<close>
\<close>

definition std :: "arith \<Rightarrow> series \<Rightarrow> fval" where
  "std ar s =
     (if count s \<le> 1 then NaN
      else
        (let values = mask0 s;
             avg = rdiv ar (pairwise_sum ar values) (Fin (real (count s)));
             sqr = map (\<lambda>(x, v). if isna x then Fin 0
                                   else rmul ar (rsub ar avg v) (rsub ar avg v)) (zip s values)
         in rsqrt ar (rdiv ar (pairwise_sum ar sqr) (Fin (real (count s - 1))))))"

definition volatility :: "arith \<Rightarrow> series \<Rightarrow> fval" where
  "volatility ar r = rmul ar (std ar r) (rsqrt ar (Fin 252))"

definition sharpe_ratio :: "arith \<Rightarrow> series \<Rightarrow> fval" where
  "sharpe_ratio ar r =
     (if fpos (volatility ar r) then rdiv ar (rmul ar (mean ar r) (Fin 252)) (volatility ar r)
      else Fin 0)"

text \<open>
  \<open>Series.cumsum()\<close> (skipna): the NaN entries are replaced by 0 for \<open>np.cumsum\<close>,
  which keeps the first element and adds the others to it one by one, and are
  NaN again in the result.
\<close>

fun accumulate :: "arith \<Rightarrow> fval \<Rightarrow> series \<Rightarrow> series" where
  "accumulate ar acc [] = []"
| "accumulate ar acc (x # xs) = radd ar acc x # accumulate ar (radd ar acc x) xs"

definition cumsum :: "arith \<Rightarrow> series \<Rightarrow> series" where
  "cumsum ar s =
     (let vals = mask0 s;
          result = (case vals of [] \<Rightarrow> [] | v # vs \<Rightarrow> v # accumulate ar v vs)
      in map (\<lambda>(x, c). if isna x then NaN else c) (zip s result))"

definition cumulative_returns :: "arith \<Rightarrow> series \<Rightarrow> series" where
  "cumulative_returns ar r =
     map (\<lambda>c. rsub ar (np_exp ar c) (Fin 1)) (cumsum ar (map (np_log1p ar) r))"

definition total_return :: "arith \<Rightarrow> series \<Rightarrow> fval" where
  "total_return ar r =
     (let cumulative = cumulative_returns ar r
      in if length cumulative > 0 then last cumulative else Fin 0)"




text \<open>The float64 value of the literal \<open>0.1\<close>, the nearest to one tenth.\<close>

definition point_one :: real where
  "point_one = 3602879701896397 / 36028797018963968"

section \<open>Calendar dates\<close>

text \<open>
  A calendar date (year, month, day): the values of the \<open>date\<close> index of the
  tables, which are daily. The lexicographic order on the triples is the
  chronological order.
\<close>

type_synonym date = "nat \<times> nat \<times> nat"

definition is_leap :: "nat \<Rightarrow> bool" where
  "is_leap y = (y mod 4 = 0 \<and> (y mod 100 \<noteq> 0 \<or> y mod 400 = 0))"

definition days_in_month :: "nat \<Rightarrow> nat \<Rightarrow> nat" where
  "days_in_month y m =
     (if m = 2 then (if is_leap y then 29 else 28)
      else if m = 4 \<or> m = 6 \<or> m = 9 \<or> m = 11 then 30 else 31)"

fun valid_date :: "date \<Rightarrow> bool" where
  "valid_date (y, m, d) = (1 \<le> m \<and> m \<le> 12 \<and> 1 \<le> d \<and> d \<le> days_in_month y m)"

text \<open>
  The label \<open>pd.Grouper(freq='M')\<close> (\<open>'ME'\<close> in api\_simple.py) gives the group of a
  date: the last day of its month.
\<close>

fun month_end :: "date \<Rightarrow> date" where
  "month_end (y, m, d) = (y, m, days_in_month y m)"

text \<open>The first day of the month after month \<open>m\<close> of year \<open>y\<close>.\<close>

definition first_of_next_month :: "nat \<Rightarrow> nat \<Rightarrow> date" where
  "first_of_next_month y m = (if m < 12 then (y, m + 1, 1) else (y + 1, 1, 1))"

text \<open>\<open>index + pd.DateOffset(1)\<close>: an offset of one calendar day.\<close>

fun date_offset_1 :: "date \<Rightarrow> date" where
  "date_offset_1 (y, m, d) =
     (if d < days_in_month y m then (y, m, d + 1) else first_of_next_month y m)"

text \<open>
  \<open>pd.to_datetime(start_date) + pd.offsets.MonthEnd()\<close>: the next month end
  strictly after the date.
\<close>

fun add_month_end :: "date \<Rightarrow> date" where
  "add_month_end (y, m, d) =
     (if d < days_in_month y m then (y, m, days_in_month y m)
      else month_end (first_of_next_month y m))"

section \<open>Sentiment aggregation\<close>

text \<open>
  One row of the sentiment CSV after \<open>pd.read_csv\<close> and \<open>pd.to_datetime\<close>; the
  columns the code reads. The two counts are finite numbers: a row whose count
  is missing fails both threshold comparisons and is dropped by the filter of
  \<open>load_sentiment_data\<close> whatever its ratio.
\<close>

record sentiment_row =
  s_date :: date
  s_symbol :: string
  twitterLikes :: real
  twitterComments :: real

text \<open>
  \<^verbatim>\<open>self.sentiment_df['engagement_ratio'] = (
    self.sentiment_df['twitterComments'] / self.sentiment_df['twitterLikes'])\<close>
  A row with no likes is dropped by the filter below, so the value of the
  division by zero never reaches the aggregation.
\<close>

definition engagement_ratio :: "sentiment_row \<Rightarrow> real" where
  "engagement_ratio r = twitterComments r / twitterLikes r"

text \<open>
  \<open>SentimentProcessor.load_sentiment_data\<close>, after the CSV has been read: the rows
  with \<open>twitterLikes > 20\<close> and \<open>twitterComments > 10\<close>.
\<close>

definition load_sentiment_data :: "sentiment_row list \<Rightarrow> sentiment_row list" where
  "load_sentiment_data csv = filter (\<lambda>r. twitterLikes r > 20 \<and> twitterComments r > 10) csv"

text \<open>A row of \<open>aggregated_df\<close>: index (date, symbol), columns engagement\_ratio and rank.\<close>

record aggregated_row =
  a_date :: date
  a_symbol :: string
  a_engagement_ratio :: real
  a_rank :: real

text \<open>
  \<open>Series.rank(ascending=False)\<close> with the default method \<open>'average'\<close>: the values
  are put in descending order and numbered from 1; a value's rank is the mean of
  the numbers of the places it occupies.
\<close>

fun positions_of :: "real \<Rightarrow> real list \<Rightarrow> nat \<Rightarrow> nat list" where
  "positions_of v [] i = []"
| "positions_of v (x # xs) i =
     (if x = v then i # positions_of v xs (i + 1) else positions_of v xs (i + 1))"

definition rank_descending :: "real list \<Rightarrow> real \<Rightarrow> real" where
  "rank_descending vs v =
     (let places = positions_of v (rev (sort vs)) 1
      in real (sum_list places) / real (length places))"

definition mean_of :: "real list \<Rightarrow> real" where
  "mean_of vs = sum_list vs / real (length vs)"

text \<open>
  \<open>SentimentProcessor.aggregate_sentiment\<close>:
  \<^verbatim>\<open>self.aggregated_df = (self.sentiment_df.reset_index('symbol')
    .groupby([pd.Grouper(freq='M'), 'symbol'])[['engagement_ratio']].mean())
self.aggregated_df['rank'] = (self.aggregated_df.groupby(level=0)['engagement_ratio']
    .transform(lambda x: x.rank(ascending=False)))\<close>
  The groups are the (month end, symbol) pairs that occur, in ascending order.
\<close>

definition group_keys :: "sentiment_row list \<Rightarrow> (date \<times> string) list" where
  "group_keys df = sort (remdups (map (\<lambda>r. (month_end (s_date r), s_symbol r)) df))"

definition group_mean :: "sentiment_row list \<Rightarrow> date \<times> string \<Rightarrow> real" where
  "group_mean df k =
     mean_of (map engagement_ratio
       (filter (\<lambda>r. (month_end (s_date r), s_symbol r) = k) df))"

definition month_ratios :: "sentiment_row list \<Rightarrow> date \<Rightarrow> real list" where
  "month_ratios df m = map (group_mean df) (filter (\<lambda>k. fst k = m) (group_keys df))"

definition aggregate_sentiment :: "sentiment_row list \<Rightarrow> aggregated_row list" where
  "aggregate_sentiment df =
     map (\<lambda>k. \<lparr> a_date = fst k, a_symbol = snd k,
               a_engagement_ratio = group_mean df k,
               a_rank = rank_descending (month_ratios df (fst k)) (group_mean df k) \<rparr>)
       (group_keys df)"

text \<open>
  \<open>SentimentProcessor.filter_top_stocks\<close>:
  \<^verbatim>\<open>self.filtered_df = self.aggregated_df[self.aggregated_df['rank'] < (top_n + 1)].copy()
self.filtered_df = self.filtered_df.reset_index(level=1)
self.filtered_df.index = self.filtered_df.index + pd.DateOffset(1)
self.filtered_df = self.filtered_df.reset_index().set_index(['date', 'symbol'])\<close>
\<close>

definition filter_top_stocks :: "int \<Rightarrow> aggregated_row list \<Rightarrow> aggregated_row list" where
  "filter_top_stocks top_n aggregated =
     map (\<lambda>r. r\<lparr> a_date := date_offset_1 (a_date r) \<rparr>)
       (filter (\<lambda>r. a_rank r < real_of_int (top_n + 1)) aggregated)"

text \<open>
  \<open>SentimentProcessor.get_portfolio_dates\<close>: a dict in insertion order, from each
  date of the filtered table to the symbols listed under it. The source's keys
  are the dates printed by \<open>strftime('%Y-%m-%d')\<close>, one string per date; here the
  key is the date itself.
\<close>

fun unique :: "'a list \<Rightarrow> 'a list" where
  "unique [] = []"
| "unique (x # xs) = x # unique (filter (\<lambda>y. y \<noteq> x) xs)"

type_synonym composition = "(date \<times> string list) list"

definition get_portfolio_dates :: "aggregated_row list \<Rightarrow> composition" where
  "get_portfolio_dates filtered =
     map (\<lambda>d. (d, map a_symbol (filter (\<lambda>r. a_date r = d) filtered)))
       (unique (map a_date filtered))"

text \<open>
  The composition for a loaded sentiment table: \<open>aggregate_sentiment\<close>,
  \<open>filter_top_stocks\<close>, \<open>get_portfolio_dates\<close> in sequence, as
  \<open>process_sentiment_data_sync\<close> and the body of api\_simple.py's
  \<open>analyze_portfolio\<close> run them.
\<close>

definition build_composition :: "int \<Rightarrow> sentiment_row list \<Rightarrow> composition" where
  "build_composition top_n csv =
     get_portfolio_dates (filter_top_stocks top_n (aggregate_sentiment (load_sentiment_data csv)))"

text \<open>
  Reading the composition: \<open>s in portfolio_dates[d]\<close>, false when \<open>d\<close> is not a key.
\<close>

definition holds :: "composition \<Rightarrow> date \<Rightarrow> string \<Rightarrow> bool" where
  "holds pd d s = (case map_of pd d of None \<Rightarrow> False | Some syms \<Rightarrow> s \<in> set syms)"

text \<open>
  The dense rank of the specification's data model, for comparison with the
  code's rank: one more than the number of distinct larger values, so that tied
  values share a rank and the ranks have no gaps.
\<close>

definition dense_rank_descending :: "real list \<Rightarrow> real \<Rightarrow> real" where
  "dense_rank_descending vs v = real (length (remdups (filter (\<lambda>x. v < x) vs))) + 1"

text \<open>Sentiment tables used as examples: one month, with ties.\<close>

definition tied_pair_then_third :: "sentiment_row list" where
  "tied_pair_then_third =
     [\<lparr> s_date = (2021, 1, 5), s_symbol = ''A'', twitterLikes = 100, twitterComments = 50 \<rparr>,
      \<lparr> s_date = (2021, 1, 7), s_symbol = ''B'', twitterLikes = 60, twitterComments = 30 \<rparr>,
      \<lparr> s_date = (2021, 1, 9), s_symbol = ''C'', twitterLikes = 100, twitterComments = 30 \<rparr>]"

definition tied_triple :: "sentiment_row list" where
  "tied_triple =
     [\<lparr> s_date = (2021, 1, 5), s_symbol = ''A'', twitterLikes = 100, twitterComments = 50 \<rparr>,
      \<lparr> s_date = (2021, 1, 7), s_symbol = ''B'', twitterLikes = 60, twitterComments = 30 \<rparr>,
      \<lparr> s_date = (2021, 1, 9), s_symbol = ''C'', twitterLikes = 40, twitterComments = 20 \<rparr>]"

section \<open>Tables\<close>

text \<open>
  A column label: a plain name, or a pair of names when the columns are a
  two-level \<open>pd.MultiIndex\<close> (yfinance gives (field, ticker) pairs).
\<close>

datatype label = Flat string | Multi string string

fun is_Multi :: "label \<Rightarrow> bool" where
  "is_Multi (Multi _ _) = True"
| "is_Multi (Flat _) = False"

text \<open>
  A DataFrame indexed by date: the column labels, and the rows in index order,
  each with one cell per column. A Series is a table of one column.
\<close>

record frame =
  columns :: "label list"
  rows :: "(date \<times> fval list) list"

text \<open>\<open>pd.DataFrame()\<close>, and \<open>df.empty\<close>: true when either axis has length 0.\<close>

definition empty_frame :: frame where
  "empty_frame = \<lparr> columns = [], rows = [] \<rparr>"

definition is_empty :: "frame \<Rightarrow> bool" where
  "is_empty f = (columns f = [] \<or> rows f = [])"

definition is_multiindex :: "frame \<Rightarrow> bool" where
  "is_multiindex f = (columns f \<noteq> [] \<and> list_all is_Multi (columns f))"

text \<open>The cell of a row at a column position (every row has one cell per column).\<close>

definition cell :: "fval list \<Rightarrow> nat \<Rightarrow> fval" where
  "cell r i = (if i < length r then r ! i else NaN)"

definition select_positions :: "nat list \<Rightarrow> (date \<times> fval list) list \<Rightarrow> (date \<times> fval list) list" where
  "select_positions ps rs = map (\<lambda>(d, r). (d, map (cell r) ps)) rs"

definition positions_where :: "('a \<Rightarrow> bool) \<Rightarrow> 'a list \<Rightarrow> nat list" where
  "positions_where P xs = filter (\<lambda>i. P (xs ! i)) [0..<length xs]"

text \<open>The exceptions the modelled code can raise or receive.\<close>

datatype exn =
    KeyError string
  | ValueError string
  | InvalidIndexError string
  | HTTPException nat string
  | RequestValidationError string
  | SourceError string

text \<open>
  \<open>df.xs(key, axis=1, level=0)\<close> and \<open>df.xs(key, axis=1, level=1)\<close>: the columns
  whose label has \<open>key\<close> at that level, labelled by the other level; KeyError
  when there is none.
\<close>

fun level0 :: "label \<Rightarrow> string" where
  "level0 (Multi a b) = a"
| "level0 (Flat a) = a"

fun level1 :: "label \<Rightarrow> string" where
  "level1 (Multi a b) = b"
| "level1 (Flat a) = a"

definition xs_level0 :: "string \<Rightarrow> frame \<Rightarrow> exn + frame" where
  "xs_level0 key f =
     (let ps = positions_where (\<lambda>c. level0 c = key) (columns f)
      in if ps = [] then Inl (KeyError key)
         else Inr \<lparr> columns = map (\<lambda>i. Flat (level1 (columns f ! i))) ps,
                    rows = select_positions ps (rows f) \<rparr>)"

definition xs_level1 :: "string \<Rightarrow> frame \<Rightarrow> exn + frame" where
  "xs_level1 key f =
     (let ps = positions_where (\<lambda>c. level1 c = key) (columns f)
      in if ps = [] then Inl (KeyError key)
         else Inr \<lparr> columns = map (\<lambda>i. Flat (level0 (columns f ! i))) ps,
                    rows = select_positions ps (rows f) \<rparr>)"

text \<open>\<open>df[name]\<close> on plain columns: the columns of that name.\<close>

definition select_column :: "string \<Rightarrow> frame \<Rightarrow> frame" where
  "select_column name f =
     (let ps = positions_where (\<lambda>c. c = Flat name) (columns f)
      in \<lparr> columns = map (\<lambda>i. columns f ! i) ps, rows = select_positions ps (rows f) \<rparr>)"

text \<open>\<open>np.log(df)\<close>, cell by cell.\<close>

definition log_frame :: "frame \<Rightarrow> frame" where
  "log_frame f = f\<lparr> rows := map (\<lambda>(d, r). (d, map flog r)) (rows f) \<rparr>"

text \<open>
  \<open>df.diff()\<close>: each row less the row before it, column by column; the first row
  has no row before it and is all NaN.
\<close>

fun diff_after :: "fval list \<Rightarrow> (date \<times> fval list) list \<Rightarrow> (date \<times> fval list) list" where
  "diff_after prev [] = []"
| "diff_after prev ((d, r) # rest) = (d, map2 fsub r prev) # diff_after r rest"

fun diff_rows :: "(date \<times> fval list) list \<Rightarrow> (date \<times> fval list) list" where
  "diff_rows [] = []"
| "diff_rows ((d, r) # rest) = (d, map (\<lambda>_. NaN) r) # diff_after r rest"

definition diff_frame :: "frame \<Rightarrow> frame" where
  "diff_frame f = f\<lparr> rows := diff_rows (rows f) \<rparr>"

text \<open>
  \<open>df.dropna()\<close> with its defaults (\<open>axis=0, how='any'\<close>): a row is dropped when
  any of its cells is NaN.
\<close>

definition dropna :: "frame \<Rightarrow> frame" where
  "dropna f = f\<lparr> rows := filter (\<lambda>(d, r). list_all (\<lambda>c. \<not> isna c) r) (rows f) \<rparr>"

section \<open>Returns\<close>

text \<open>
  \<open>calculate_returns_batch\<close> (data\_processor.py), the same statements as the
  return step of api\_simple.py's \<open>analyze_portfolio\<close> and of \<open>analyze_stocks\<close>:
  \<^verbatim>\<open>if isinstance(prices_batch.columns, pd.MultiIndex):
    if 'Adj Close' in prices_batch.columns.get_level_values(0):
        adj_close = prices_batch.xs('Adj Close', axis=1, level=0)
    else:
        adj_close = prices_batch.xs('Adj Close', axis=1, level=1)
else:
    adj_close = prices_batch['Adj Close'] if 'Adj Close' in prices_batch.columns else prices_batch
returns = np.log(adj_close).diff().dropna()\<close>
\<close>

definition adj_close_of :: "frame \<Rightarrow> exn + frame" where
  "adj_close_of prices =
     (if is_multiindex prices then
        (if ''Adj Close'' \<in> set (map level0 (columns prices))
         then xs_level0 ''Adj Close'' prices
         else xs_level1 ''Adj Close'' prices)
      else if Flat ''Adj Close'' \<in> set (columns prices)
        then Inr (select_column ''Adj Close'' prices)
        else Inr prices)"

definition log_returns :: "frame \<Rightarrow> frame" where
  "log_returns adj_close = dropna (diff_frame (log_frame adj_close))"

definition compute_returns :: "frame \<Rightarrow> exn + frame" where
  "compute_returns prices =
     (case adj_close_of prices of Inl e \<Rightarrow> Inl e | Inr adj_close \<Rightarrow> Inr (log_returns adj_close))"

text \<open>
  \<open>calculate_returns_batch\<close> wraps the statements in \<open>try\<close> and returns an empty
  table on any exception.
\<close>

definition calculate_returns_batch :: "frame \<Rightarrow> frame" where
  "calculate_returns_batch prices_batch =
     (case compute_returns prices_batch of Inl e \<Rightarrow> empty_frame | Inr returns \<Rightarrow> returns)"

text \<open>
  The return series of one symbol taken alone, for comparison: the log
  differences of its own column, without its own undefined entries.
\<close>

definition column_series :: "nat \<Rightarrow> frame \<Rightarrow> (date \<times> fval) list" where
  "column_series j f = map (\<lambda>(d, r). (d, cell r j)) (rows f)"

definition symbol_returns :: "nat \<Rightarrow> frame \<Rightarrow> (date \<times> fval) list" where
  "symbol_returns j adj_close =
     filter (\<lambda>(d, v). \<not> isna v) (column_series j (diff_frame (log_frame adj_close)))"

text \<open>
  A price table of two symbols in which B is listed one day later than A.
\<close>

definition late_listing :: frame where
  "late_listing =
     \<lparr> columns = [Multi ''Adj Close'' ''A'', Multi ''Adj Close'' ''B''],
       rows = [((2021, 1, 4), [Fin 1, NaN]),
               ((2021, 1, 5), [Fin 1, Fin 1]),
               ((2021, 1, 6), [Fin 1, Fin 1])] \<rparr>"

section \<open>Batched price download\<close>

text \<open>
  The price source, \<open>yf.download(tickers, start, end, auto_adjust)\<close>, is outside
  the repository: a parameter that returns a table or raises.
\<close>

type_synonym price_source = "string list \<Rightarrow> string \<Rightarrow> string \<Rightarrow> bool \<Rightarrow> exn + frame"

text \<open>
  \<open>download_stock_batch\<close> (data\_processor.py) and \<open>download_stock_batch_simple\<close>
  (api\_simple.py, which fixes \<open>auto_adjust=False\<close>): any exception of the download
  is caught and an empty table returned.
\<close>

definition download_stock_batch ::
  "price_source \<Rightarrow> string list \<Rightarrow> string \<Rightarrow> string \<Rightarrow> bool \<Rightarrow> frame" where
  "download_stock_batch yf tickers start_date end_date auto_adjust =
     (case yf tickers start_date end_date auto_adjust of
        Inl e \<Rightarrow> empty_frame
      | Inr data \<Rightarrow> data)"

definition download_stock_batch_simple ::
  "price_source \<Rightarrow> string list \<Rightarrow> string \<Rightarrow> string \<Rightarrow> frame" where
  "download_stock_batch_simple yf tickers start_date end_date =
     download_stock_batch yf tickers start_date end_date False"

text \<open>
  \<open>[xs[i:i + n] for i in range(0, len(xs), n)]\<close> for a positive step \<open>n\<close>.
\<close>

function chunks :: "nat \<Rightarrow> 'a list \<Rightarrow> 'a list list" where
  "chunks n xs = (if n = 0 \<or> xs = [] then [] else take n xs # chunks n (drop n xs))"
  by pat_completeness auto
termination
  by (relation "measure (\<lambda>(n, xs). length xs)") auto

declare chunks.simps [simp del]

text \<open>
  The same comprehension for any integer step: \<open>range\<close> raises ValueError for the
  step 0 and is empty for a negative step.
\<close>

definition slices :: "int \<Rightarrow> 'a list \<Rightarrow> exn + 'a list list" where
  "slices n xs =
     (if n = 0 then Inl (ValueError ''range() arg 3 must not be zero'')
      else if n < 0 then Inr []
      else Inr (chunks (nat n) xs))"

text \<open>
  \<open>pd.concat(frames, axis=1)\<close>, an outer join on the date index. Tables with
  one and the same index are put side by side as they are. Otherwise the index
  of the result is the sorted union of the indexes, a table has NaN on the dates
  it lacks, and pandas refuses a table with a repeated date.
\<close>

definition index_of :: "frame \<Rightarrow> date list" where
  "index_of f = map fst (rows f)"

definition join_rows ::
  "(date \<times> fval list) list \<Rightarrow> (date \<times> fval list) list \<Rightarrow> (date \<times> fval list) list" where
  "join_rows rs1 rs2 = map (\<lambda>((d, r1), (_, r2)). (d, r1 @ r2)) (zip rs1 rs2)"

definition row_at :: "frame \<Rightarrow> date \<Rightarrow> fval list" where
  "row_at f d =
     (case map_of (rows f) d of
        Some r \<Rightarrow> r
      | None \<Rightarrow> replicate (length (columns f)) NaN)"

fun concat_axis1 :: "frame list \<Rightarrow> exn + frame" where
  "concat_axis1 [] = Inl (ValueError ''No objects to concatenate'')"
| "concat_axis1 (f # fs) =
     (if list_all (\<lambda>g. index_of g = index_of f) fs then
        Inr \<lparr> columns = concat (map columns (f # fs)),
              rows = foldl join_rows (rows f) (map rows fs) \<rparr>
      else if list_ex (\<lambda>g. \<not> distinct (index_of g)) (f # fs) then
        Inl (InvalidIndexError ''Reindexing only valid with uniquely valued Index objects'')
      else
        Inr \<lparr> columns = concat (map columns (f # fs)),
              rows = map (\<lambda>d. (d, concat (map (\<lambda>g. row_at g d) (f # fs))))
                       (sort (remdups (concat (map index_of (f # fs))))) \<rparr>)"

text \<open>
  \<open>ParallelPortfolioEngine.__init__(self, batch_size: int = 20)\<close>; the argument is
  optional.
\<close>

record ParallelPortfolioEngine =
  batch_size :: int

definition ParallelPortfolioEngine_init :: "int option \<Rightarrow> ParallelPortfolioEngine" where
  "ParallelPortfolioEngine_init arg =
     \<lparr> batch_size = (case arg of None \<Rightarrow> 20 | Some b \<Rightarrow> b) \<rparr>"

text \<open>
  \<open>ParallelPortfolioEngine.download_stock_data_parallel\<close>: the exclusion list is
  applied first, then the list is cut into batches.
  \<^verbatim>\<open>excluded = ['MRO', 'ATVI']
stocks_list = [s for s in stocks_list if s not in excluded]
batches = [stocks_list[i:i + self.batch_size]
          for i in range(0, len(stocks_list), self.batch_size)]
futures = [download_stock_batch.remote(batch, start_date, end_date, False) for batch in batches]
results = ray.get(futures)
valid_dataframes = [df for df in results if not df.empty]
if valid_dataframes:
    combined_df = pd.concat(valid_dataframes, axis=1)
    return combined_df
else:
    return pd.DataFrame()\<close>
\<close>

definition excluded :: "string list" where
  "excluded = [''MRO'', ''ATVI'']"

definition stock_batches :: "int \<Rightarrow> string list \<Rightarrow> exn + string list list" where
  "stock_batches n stocks_list = slices n (filter (\<lambda>s. s \<notin> set excluded) stocks_list)"

definition combine_results :: "frame list \<Rightarrow> exn + frame" where
  "combine_results results =
     (let valid_dataframes = filter (\<lambda>df. \<not> is_empty df) results
      in if valid_dataframes \<noteq> [] then concat_axis1 valid_dataframes else Inr empty_frame)"

definition download_stock_data_parallel ::
  "price_source \<Rightarrow> ParallelPortfolioEngine \<Rightarrow> string list \<Rightarrow> string \<Rightarrow> string \<Rightarrow> exn + frame" where
  "download_stock_data_parallel yf self stocks_list start_date end_date =
     (case stock_batches (batch_size self) stocks_list of
        Inl e \<Rightarrow> Inl e
      | Inr batches \<Rightarrow>
          combine_results
            (map (\<lambda>batch. download_stock_batch yf batch start_date end_date False) batches))"

text \<open>
  \<open>parallel_stock_download_simple(stocks_list, start_date, end_date, batch_size: int = 15)\<close>
  (api\_simple.py): no exclusion here (its caller excludes), the same batching,
  and only non-empty results are kept.
\<close>

definition parallel_stock_download_simple ::
  "price_source \<Rightarrow> string list \<Rightarrow> string \<Rightarrow> string \<Rightarrow> int option \<Rightarrow> exn + frame" where
  "parallel_stock_download_simple yf stocks_list start_date end_date arg =
     (let batch_size = (case arg of None \<Rightarrow> 15 | Some b \<Rightarrow> b)
      in case slices batch_size stocks_list of
           Inl e \<Rightarrow> Inl e
         | Inr batches \<Rightarrow>
             combine_results
               (map (\<lambda>batch. download_stock_batch_simple yf batch start_date end_date) batches))"

text \<open>Seventeen symbols, the two excluded ones among them.\<close>

definition seventeen_with_excluded :: "string list" where
  "seventeen_with_excluded =
     [''AAPL'', ''AMD'', ''AMZN'', ''CRM'', ''GOOG'', ''INTC'', ''META'', ''MSFT'', ''NFLX'',
      ''NVDA'', ''ORCL'', ''PYPL'', ''QCOM'', ''TSLA'', ''UBER'', ''MRO'', ''ATVI'']"

section \<open>Portfolio returns and the benchmark\<close>

text \<open>Sequencing of steps that can raise: the first exception ends the sequence.\<close>

definition bind_exn :: "exn + 'a \<Rightarrow> ('a \<Rightarrow> exn + 'b) \<Rightarrow> exn + 'b" where
  "bind_exn m k = (case m of Inl e \<Rightarrow> Inl e | Inr x \<Rightarrow> k x)"

text \<open>\<open>df.mean(axis=1)\<close> on one row: the mean of its cells that are not NaN.\<close>

definition row_mean :: "fval list \<Rightarrow> fval" where
  "row_mean r =
     (let cells = dropna_series r
      in if cells = [] then NaN else fdiv (fsum cells) (Fin (real (length cells))))"

text \<open>
  \<open>returns_df.loc[start_date:end_date, valid_cols].mean(axis=1).to_frame('portfolio_return')\<close>:
  the rows dated from \<open>start_date\<close> to \<open>end_date\<close>, both included (the index is in
  date order, as the price source gives it), and the mean over the chosen columns.
\<close>

definition window_mean ::
  "frame \<Rightarrow> date \<Rightarrow> date \<Rightarrow> string list \<Rightarrow> (date \<times> fval list) list" where
  "window_mean returns_df start_date end_date valid_cols =
     (let ps = concat (map (\<lambda>c. positions_where (\<lambda>l. l = Flat c) (columns returns_df)) valid_cols)
      in map (\<lambda>(d, r). (d, [row_mean (map (cell r) ps)]))
           (filter (\<lambda>(d, r). start_date \<le> d \<and> d \<le> end_date) (rows returns_df)))"

text \<open>
  \<open>calculate_portfolio_returns_batch\<close>: the rows it appends, window after window.
  \<^verbatim>\<open>for start_date in date_batch:
    if start_date not in portfolio_dates:
        continue
    end_date = (pd.to_datetime(start_date) + pd.offsets.MonthEnd()).strftime('%Y-%m-%d')
    cols = portfolio_dates[start_date]
    valid_cols = [c for c in cols if c in returns_df.columns]
    if valid_cols:
        temp_df = (returns_df.loc[start_date:end_date, valid_cols]
                  .mean(axis=1).to_frame('portfolio_return'))
        portfolio_batch = pd.concat([portfolio_batch, temp_df])\<close>
\<close>

fun calculate_portfolio_returns_batch ::
  "frame \<Rightarrow> composition \<Rightarrow> date list \<Rightarrow> (date \<times> fval list) list" where
  "calculate_portfolio_returns_batch returns_df portfolio_dates [] = []"
| "calculate_portfolio_returns_batch returns_df portfolio_dates (start_date # date_batch) =
     (case map_of portfolio_dates start_date of
        None \<Rightarrow> calculate_portfolio_returns_batch returns_df portfolio_dates date_batch
      | Some cols \<Rightarrow>
          (let end_date = add_month_end start_date;
               valid_cols = filter (\<lambda>c. Flat c \<in> set (columns returns_df)) cols
           in (if valid_cols \<noteq> []
               then window_mean returns_df start_date end_date valid_cols else [])
              @ calculate_portfolio_returns_batch returns_df portfolio_dates date_batch))"

text \<open>
  \<open>ParallelPortfolioEngine.calculate_portfolio_performance\<close>: the dates are
  processed in batches of 5 and the non-empty results concatenated;
  \<open>pd.concat\<close> raises ValueError when there is none.
\<close>

definition calculate_portfolio_performance :: "frame \<Rightarrow> composition \<Rightarrow> exn + frame" where
  "calculate_portfolio_performance prices_df portfolio_dates =
     (let returns_df = calculate_returns_batch prices_df;
          date_batches = chunks 5 (map fst portfolio_dates);
          portfolio_results =
            map (calculate_portfolio_returns_batch returns_df portfolio_dates) date_batches;
          kept = filter (\<lambda>rs. rs \<noteq> []) portfolio_results
      in if kept = [] then Inl (ValueError ''No objects to concatenate'')
         else Inr \<lparr> columns = [Flat ''portfolio_return''], rows = concat kept \<rparr>)"

text \<open>
  The loop of api\_simple.py's \<open>analyze_portfolio\<close> over all the dates at once; its
  \<open>portfolio_df\<close> stays the empty \<open>pd.DataFrame()\<close> when no window has a valid column.
\<close>

definition portfolio_returns_simple :: "frame \<Rightarrow> composition \<Rightarrow> frame" where
  "portfolio_returns_simple returns_df portfolio_dates =
     (let appended = calculate_portfolio_returns_batch returns_df portfolio_dates
                       (map fst portfolio_dates)
      in if list_ex (\<lambda>(d, cols). filter (\<lambda>c. Flat c \<in> set (columns returns_df)) cols \<noteq> [])
              portfolio_dates
         then \<lparr> columns = [Flat ''portfolio_return''], rows = appended \<rparr>
         else empty_frame)"

text \<open>\<open>str.lower()\<close> on ASCII letters.\<close>

definition lower_char :: "char \<Rightarrow> char" where
  "lower_char c =
     (if CHR ''A'' \<le> c \<and> c \<le> CHR ''Z'' then char_of (of_char c + (32 :: nat)) else c)"

definition lower :: "string \<Rightarrow> string" where
  "lower s = map lower_char s"

text \<open>
  \<open>get_benchmark_data\<close> (and the same statements in api\_simple.py):
  \<^verbatim>\<open>benchmark_data = yf.download(tickers=ticker, start=start_date, end=end_date, auto_adjust=False)
adj_close = benchmark_data['Adj Close']
benchmark_returns = np.log(adj_close).diff()
benchmark_returns.columns = [f'{ticker.lower()}_return']\<close>
  On two-level columns \<open>benchmark_data['Adj Close']\<close> is the table of the tickers
  under that field, and naming its columns raises ValueError unless there is
  exactly one. On plain columns it is the one Series of that name, which the
  assignment does not rename. KeyError when the field is absent. No exception
  is caught here.
\<close>

definition get_benchmark_data ::
  "price_source \<Rightarrow> string \<Rightarrow> string \<Rightarrow> string \<Rightarrow> exn + frame" where
  "get_benchmark_data yf ticker start_date end_date =
     bind_exn (yf [ticker] start_date end_date False) (\<lambda>benchmark_data.
       if is_multiindex benchmark_data then
         bind_exn (xs_level0 ''Adj Close'' benchmark_data) (\<lambda>adj_close.
           if length (columns adj_close) \<noteq> 1
           then Inl (ValueError ''Length mismatch'')
           else Inr ((diff_frame (log_frame adj_close))
                       \<lparr> columns := [Flat (lower ticker @ ''_return'')] \<rparr>))
       else if Flat ''Adj Close'' \<in> set (columns benchmark_data)
         then Inr (diff_frame (log_frame (select_column ''Adj Close'' benchmark_data)))
         else Inl (KeyError ''Adj Close''))"

text \<open>
  \<open>left.merge(right, left_index=True, right_index=True, how='left')\<close>: every row
  of the left table, once for each row of the right table with the same date,
  or once with NaN when there is none; a name in both tables gets the suffix
  \<open>_x\<close> on the left and \<open>_y\<close> on the right.
\<close>

fun suffixed :: "string \<Rightarrow> label list \<Rightarrow> label \<Rightarrow> label" where
  "suffixed sfx others (Flat a) = (if Flat a \<in> set others then Flat (a @ sfx) else Flat a)"
| "suffixed sfx others (Multi a b) = Multi a b"

definition merge_left :: "frame \<Rightarrow> frame \<Rightarrow> frame" where
  "merge_left left right =
     \<lparr> columns = map (suffixed ''_x'' (columns right)) (columns left)
                 @ map (suffixed ''_y'' (columns left)) (columns right),
       rows = concat (map (\<lambda>(d, r).
                (case filter (\<lambda>(d', r'). d' = d) (rows right) of
                   [] \<Rightarrow> [(d, r @ replicate (length (columns right)) NaN)]
                 | ms \<Rightarrow> map (\<lambda>(d', r'). (d, r @ r')) ms)) (rows left)) \<rparr>"

text \<open>\<open>df[name].dropna()\<close>: the Series of that column without its NaN entries.\<close>

definition column_dropna :: "string \<Rightarrow> frame \<Rightarrow> exn + (date \<times> fval) list" where
  "column_dropna name f =
     (case positions_where (\<lambda>l. l = Flat name) (columns f) of
        [] \<Rightarrow> Inl (KeyError name)
      | j # _ \<Rightarrow> Inr (filter (\<lambda>(d, v). \<not> isna v) (column_series j f)))"

section \<open>The analysis request and its cache key\<close>

text \<open>
  \<^verbatim>\<open>class PortfolioRequest(BaseModel):
    sentiment_url: str = "https://raw.githubusercontent.com/SalomeAc/Infraestructuras-proyecto/refs/heads/main/sentiment_data.csv"
    start_date: str = "2021-01-01"
    end_date: str = "2023-03-01"
    top_n_stocks: int = 5
    benchmark_ticker: str = "QQQ"\<close>
\<close>

record PortfolioRequest =
  sentiment_url :: string
  start_date :: string
  end_date :: string
  top_n_stocks :: int
  benchmark_ticker :: string

definition default_request :: PortfolioRequest where
  "default_request =
     \<lparr> sentiment_url = ''https://raw.githubusercontent.com/SalomeAc/Infraestructuras-proyecto/refs/heads/main/sentiment_data.csv'',
       start_date = ''2021-01-01'',
       end_date = ''2023-03-01'',
       top_n_stocks = 5,
       benchmark_ticker = ''QQQ'' \<rparr>"

text \<open>
  The body of a POST request, a JSON object: its members in the order sent. The
  framework builds the \<open>PortfolioRequest\<close> from it before the handler runs: a
  member is looked up by name (the last one of a repeated name counts, members
  of other names are ignored), an absent member takes the default, and a value
  of the wrong kind is refused. (The coercions some pydantic versions apply
  between strings and numbers are not modelled: such a value is refused here.)
\<close>

datatype json = JString string | JInt int | JOther

type_synonym body = "(string \<times> json) list"

definition member :: "body \<Rightarrow> string \<Rightarrow> json option" where
  "member b name = map_of (rev b) name"

definition str_field :: "body \<Rightarrow> string \<Rightarrow> string \<Rightarrow> exn + string" where
  "str_field b name dflt =
     (case member b name of
        None \<Rightarrow> Inr dflt
      | Some (JString s) \<Rightarrow> Inr s
      | Some _ \<Rightarrow> Inl (RequestValidationError name))"

definition int_field :: "body \<Rightarrow> string \<Rightarrow> int \<Rightarrow> exn + int" where
  "int_field b name dflt =
     (case member b name of
        None \<Rightarrow> Inr dflt
      | Some (JInt i) \<Rightarrow> Inr i
      | Some _ \<Rightarrow> Inl (RequestValidationError name))"

definition PortfolioRequest_of :: "body \<Rightarrow> exn + PortfolioRequest" where
  "PortfolioRequest_of b =
     bind_exn (str_field b ''sentiment_url'' (sentiment_url default_request)) (\<lambda>u.
     bind_exn (str_field b ''start_date'' (start_date default_request)) (\<lambda>s.
     bind_exn (str_field b ''end_date'' (end_date default_request)) (\<lambda>e.
     bind_exn (int_field b ''top_n_stocks'' (top_n_stocks default_request)) (\<lambda>n.
     bind_exn (str_field b ''benchmark_ticker'' (benchmark_ticker default_request)) (\<lambda>t.
       Inr \<lparr> sentiment_url = u, start_date = s, end_date = e,
             top_n_stocks = n, benchmark_ticker = t \<rparr>)))))"

text \<open>Decimal printing of integers, as \<open>str\<close> and f-strings print them.\<close>

fun show_nat :: "nat \<Rightarrow> string" where
  "show_nat n =
     (if n < 10 then [char_of (n + 48)]
      else show_nat (n div 10) @ [char_of (n mod 10 + 48)])"

declare show_nat.simps [simp del]

definition show_int :: "int \<Rightarrow> string" where
  "show_int i = (if i < 0 then CHR ''-'' # show_nat (nat (- i)) else show_nat (nat i))"

text \<open>
  What the interpreter supplies for one run of the process: the built-in
  \<open>hash\<close> of a string (salted per process) and \<open>repr\<close> of a string.
\<close>

record runtime =
  py_hash :: "string \<Rightarrow> int"
  py_repr :: "string \<Rightarrow> string"

text \<open>
  \<open>str(request.dict())\<close>: the fields in the order of their declaration, whatever
  the order of the members of the body.
\<close>

definition str_request_dict :: "runtime \<Rightarrow> PortfolioRequest \<Rightarrow> string" where
  "str_request_dict rt request =
     ''{'' @ py_repr rt ''sentiment_url'' @ '': '' @ py_repr rt (sentiment_url request)
     @ '', '' @ py_repr rt ''start_date'' @ '': '' @ py_repr rt (start_date request)
     @ '', '' @ py_repr rt ''end_date'' @ '': '' @ py_repr rt (end_date request)
     @ '', '' @ py_repr rt ''top_n_stocks'' @ '': '' @ show_int (top_n_stocks request)
     @ '', '' @ py_repr rt ''benchmark_ticker'' @ '': '' @ py_repr rt (benchmark_ticker request)
     @ ''}''"

text \<open>\<^verbatim>\<open>cache_key = f"portfolio_{hash(str(request.dict()))}"\<close>\<close>

definition cache_key :: "runtime \<Rightarrow> PortfolioRequest \<Rightarrow> string" where
  "cache_key rt request = ''portfolio_'' @ show_int (py_hash rt (str_request_dict rt request))"

section \<open>The analysis and its cache\<close>

text \<open>The response of a successful analysis.\<close>

record analysis =
  total_portfolio_return :: fval
  total_benchmark_return :: fval
  excess_return :: fval
  portfolio_volatility :: fval
  benchmark_volatility :: fval
  sharpe :: fval
  number_of_periods :: nat
  unique_stocks_analyzed :: nat

record performance_data =
  dates :: "date list"
  portfolio_cumulative_returns :: "fval list"
  benchmark_cumulative_returns :: "fval list"

record result =
  status :: string
  processing_time_seconds :: real
  r_analysis :: analysis
  r_performance_data :: performance_data
  portfolio_composition :: composition
  request_params :: PortfolioRequest
  timestamp :: string

text \<open>
  What lies outside the process at the time of one call: the sentiment source
  (\<open>pd.read_csv\<close> of the URL, with the dates parsed; it raises when the source is
  unreachable or malformed), the price source, the order in which
  \<open>list(set(...))\<close> lists a set, the mathematical library of the platform, and
  the clock.
\<close>

record world =
  read_csv :: "string \<Rightarrow> exn + sentiment_row list"
  yf_download :: price_source
  list_of_set :: "string list \<Rightarrow> string list"
  libm :: math_library
  elapsed_seconds :: real
  now_isoformat :: string

text \<open>
  The metric step, the same in api.py and api\_simple.py, from the merged table
  to the response.
\<close>

definition compute_result ::
  "world \<Rightarrow> PortfolioRequest \<Rightarrow> composition \<Rightarrow> string list \<Rightarrow> frame \<Rightarrow> exn + result" where
  "compute_result w request portfolio_dates unique_stocks combined_performance =
     bind_exn (column_dropna ''portfolio_return'' combined_performance) (\<lambda>portfolio_returns.
     bind_exn (column_dropna (lower (benchmark_ticker request) @ ''_return'') combined_performance)
       (\<lambda>benchmark_returns.
       (let ar = binary64 (libm w)
        in Inr \<lparr> status = ''success'',
                processing_time_seconds = elapsed_seconds w,
                r_analysis =
                  \<lparr> total_portfolio_return = total_return ar (map snd portfolio_returns),
                    total_benchmark_return = total_return ar (map snd benchmark_returns),
                    excess_return = rsub ar (total_return ar (map snd portfolio_returns))
                                            (total_return ar (map snd benchmark_returns)),
                    portfolio_volatility = volatility ar (map snd portfolio_returns),
                    benchmark_volatility = volatility ar (map snd benchmark_returns),
                    sharpe = sharpe_ratio ar (map snd portfolio_returns),
                    number_of_periods = length portfolio_dates,
                    unique_stocks_analyzed = length unique_stocks \<rparr>,
                r_performance_data =
                  \<lparr> dates = map fst portfolio_returns,
                    portfolio_cumulative_returns =
                      cumulative_returns ar (map snd portfolio_returns),
                    benchmark_cumulative_returns =
                      cumulative_returns ar (map snd benchmark_returns) \<rparr>,
                portfolio_composition = portfolio_dates,
                request_params = request,
                timestamp = now_isoformat w \<rparr>)))"

text \<open>
  \<open>ParallelPortfolioEngine.process_sentiment_data_sync\<close>: the processor's four
  steps in sequence; \<open>filter_top_stocks\<close> is called without an argument, so with
  its default \<open>top_n = 5\<close>.
\<close>

definition process_sentiment_data_sync :: "world \<Rightarrow> string \<Rightarrow> exn + composition" where
  "process_sentiment_data_sync w url =
     bind_exn (read_csv w url) (\<lambda>csv. Inr (build_composition 5 csv))"

text \<open>
  \<open>PortfolioAPI\<close> (api.py): \<open>__init__\<close> builds the engine with \<open>batch_size=15\<close> and an
  empty cache.
\<close>

record PortfolioAPI =
  engine :: ParallelPortfolioEngine
  cache :: "string \<rightharpoonup> result"

definition PortfolioAPI_init :: PortfolioAPI where
  "PortfolioAPI_init = \<lparr> engine = ParallelPortfolioEngine_init (Some 15), cache = Map.empty \<rparr>"

text \<open>
  The body of the \<open>try\<close> of \<open>PortfolioAPI.analyze_portfolio\<close> between the cache
  lookup and the cache store: every statement that can raise, in the source's
  order.
\<close>

definition compute_analysis ::
  "world \<Rightarrow> ParallelPortfolioEngine \<Rightarrow> PortfolioRequest \<Rightarrow> exn + result" where
  "compute_analysis w eng request =
     bind_exn (process_sentiment_data_sync w (sentiment_url request)) (\<lambda>portfolio_dates.
       if portfolio_dates = []
       then Inl (HTTPException 400 ''No se pudieron procesar datos de sentimiento'')
       else
         (let unique_stocks = list_of_set w (concat (map snd portfolio_dates))
          in bind_exn (download_stock_data_parallel (yf_download w) eng unique_stocks
                         (start_date request) (end_date request)) (\<lambda>prices_df.
               if is_empty prices_df
               then Inl (HTTPException 500 ''No se pudieron descargar datos de acciones'')
               else
                 bind_exn (calculate_portfolio_performance prices_df portfolio_dates)
                   (\<lambda>portfolio_performance.
                 bind_exn (get_benchmark_data (yf_download w) (benchmark_ticker request)
                             (start_date request) (end_date request)) (\<lambda>benchmark_data.
                   compute_result w request portfolio_dates unique_stocks
                     (merge_left portfolio_performance benchmark_data))))))"

text \<open>
  \<open>str(e)\<close> for the exceptions of the model; an \<open>HTTPException\<close> prints as its
  status code and detail.
\<close>

fun str_exn :: "exn \<Rightarrow> string" where
  "str_exn (KeyError k) = CHR 0x27 # k @ [CHR 0x27]"
| "str_exn (ValueError m) = m"
| "str_exn (InvalidIndexError m) = m"
| "str_exn (HTTPException c d) = show_nat c @ '': '' @ d"
| "str_exn (RequestValidationError m) = m"
| "str_exn (SourceError m) = m"

text \<open>
  \<open>PortfolioAPI.analyze_portfolio\<close>: the object before the call, the response or
  the exception raised, and the object after the call.
  \<^verbatim>\<open>try:
    cache_key = f"portfolio_{hash(str(request.dict()))}"
    if cache_key in self.cache:
        return self.cache[cache_key]
    ...
    self.cache[cache_key] = result
    return result
except Exception as e:
    raise HTTPException(status_code=500, detail=f"Error interno: {str(e)}")\<close>
\<close>

definition analyze_portfolio ::
  "runtime \<Rightarrow> world \<Rightarrow> PortfolioAPI \<Rightarrow> PortfolioRequest \<Rightarrow> (exn + result) \<times> PortfolioAPI" where
  "analyze_portfolio rt w self request =
     (case cache self (cache_key rt request) of
        Some cached \<Rightarrow> (Inr cached, self)
      | None \<Rightarrow>
          (case compute_analysis w (engine self) request of
             Inl e \<Rightarrow> (Inl (HTTPException 500 (''Error interno: '' @ str_exn e)), self)
           | Inr result \<Rightarrow>
               (Inr result, self\<lparr> cache := (cache self)(cache_key rt request \<mapsto> result) \<rparr>)))"

text \<open>
  api\_simple.py: the cache is a module-level dict, and the handler has the whole
  computation inline. It ranks with the request's \<open>top_n_stocks\<close>, excludes the
  two symbols itself, downloads with the default batch size and lets an
  exception of the return step propagate.
\<close>

definition compute_analysis_simple :: "world \<Rightarrow> PortfolioRequest \<Rightarrow> exn + result" where
  "compute_analysis_simple w request =
     bind_exn (read_csv w (sentiment_url request)) (\<lambda>csv.
       (let portfolio_dates = build_composition (top_n_stocks request) csv;
            unique_stocks = filter (\<lambda>s. s \<notin> set excluded)
                              (list_of_set w (concat (map snd portfolio_dates)))
        in bind_exn (parallel_stock_download_simple (yf_download w) unique_stocks
                       (start_date request) (end_date request) None) (\<lambda>prices_df.
             if is_empty prices_df
             then Inl (HTTPException 500 ''No se pudieron descargar datos de acciones'')
             else
               bind_exn (compute_returns prices_df) (\<lambda>returns_df.
               bind_exn (get_benchmark_data (yf_download w) (benchmark_ticker request)
                           (start_date request) (end_date request)) (\<lambda>benchmark_returns.
                 compute_result w request portfolio_dates unique_stocks
                   (merge_left (portfolio_returns_simple returns_df portfolio_dates)
                      benchmark_returns))))))"

definition analyze_portfolio_simple ::
  "runtime \<Rightarrow> world \<Rightarrow> (string \<rightharpoonup> result) \<Rightarrow> PortfolioRequest
     \<Rightarrow> (exn + result) \<times> (string \<rightharpoonup> result)" where
  "analyze_portfolio_simple rt w cache0 request =
     (case cache0 (cache_key rt request) of
        Some cached \<Rightarrow> (Inr cached, cache0)
      | None \<Rightarrow>
          (case compute_analysis_simple w request of
             Inl e \<Rightarrow> (Inl (HTTPException 500 (''Error interno: '' @ str_exn e)), cache0)
           | Inr result \<Rightarrow> (Inr result, cache0(cache_key rt request \<mapsto> result))))"

text \<open>
  The POST endpoint as a client sees it: the body is turned into a request, and
  only then is the handler called.
\<close>

definition post_portfolio_analyze ::
  "runtime \<Rightarrow> world \<Rightarrow> PortfolioAPI \<Rightarrow> body \<Rightarrow> (exn + result) \<times> PortfolioAPI" where
  "post_portfolio_analyze rt w self b =
     (case PortfolioRequest_of b of
        Inl e \<Rightarrow> (Inl e, self)
      | Inr request \<Rightarrow> analyze_portfolio rt w self request)"

text \<open>
  Seventeen symbols, none of them excluded, and a price source that answers
  the first fifteen with a table of their prices and times out on any other
  request.
\<close>

definition seventeen_symbols :: "string list" where
  "seventeen_symbols =
     [''AAPL'', ''AMD'', ''AMZN'', ''CRM'', ''GOOG'', ''INTC'', ''META'', ''MSFT'', ''NFLX'',
      ''NVDA'', ''ORCL'', ''PYPL'', ''QCOM'', ''TSLA'', ''UBER'', ''SHOP'', ''ZM'']"

definition first_batch_table :: frame where
  "first_batch_table =
     \<lparr> columns = map (Multi ''Adj Close'') (take 15 seventeen_symbols),
       rows = [((2021, 1, 4), replicate 15 (Fin 1)), ((2021, 1, 5), replicate 15 (Fin 1))] \<rparr>"

definition second_batch_down :: price_source where
  "second_batch_down tickers from_day to_day auto_adjust =
     (if tickers = take 15 seventeen_symbols then Inr first_batch_table
      else Inl (SourceError ''timed out''))"

text \<open>
  A small world in which an analysis succeeds: the sentiment source has one
  month with three symbols, and the price source quotes every ticker at 1 on
  the first three days of February 2021.
\<close>

definition flat_prices :: price_source where
  "flat_prices tickers from_day to_day auto_adjust =
     Inr \<lparr> columns = map (Multi ''Adj Close'') tickers,
           rows = map (\<lambda>d. ((2021, 2, d), map (\<lambda>t. Fin 1) tickers)) [1, 2, 3] \<rparr>"

definition quiet_world :: world where
  "quiet_world =
     \<lparr> read_csv = (\<lambda>url. Inr tied_pair_then_third),
       yf_download = flat_prices,
       list_of_set = remdups,
       libm = rounded_library,
       elapsed_seconds = 1,
       now_isoformat = ''2021-03-01T00:00:00'' \<rparr>"

text \<open>A world in which the sentiment source cannot be reached.\<close>

definition offline_world :: world where
  "offline_world =
     \<lparr> read_csv = (\<lambda>url. Inl (SourceError ''unreachable'')),
       yf_download = (\<lambda>tickers from_day to_day auto_adjust. Inl (SourceError ''unreachable'')),
       list_of_set = remdups,
       libm = rounded_library,
       elapsed_seconds = 1,
       now_isoformat = ''2021-03-01T00:00:00'' \<rparr>"

definition plain_runtime :: runtime where
  "plain_runtime = \<lparr> py_hash = (\<lambda>s. int (length s)), py_repr = (\<lambda>s. CHR 0x27 # s @ [CHR 0x27]) \<rparr>"

definition quiet_result :: result where
  "quiet_result =
     \<lparr> status = ''success'',
       processing_time_seconds = 1,
       r_analysis =
         \<lparr> total_portfolio_return = Fin 0, total_benchmark_return = Fin 0,
           excess_return = Fin 0, portfolio_volatility = Fin 0,
           benchmark_volatility = Fin 0, sharpe = Fin 0,
           number_of_periods = 1, unique_stocks_analyzed = 3 \<rparr>,
       r_performance_data =
         \<lparr> dates = [(2021, 2, 2), (2021, 2, 3)],
           portfolio_cumulative_returns = [Fin 0, Fin 0],
           benchmark_cumulative_returns = [Fin 0, Fin 0] \<rparr>,
       portfolio_composition = [((2021, 2, 1), [''A'', ''B'', ''C''])],
       request_params = default_request,
       timestamp = ''2021-03-01T00:00:00'' \<rparr>"

text \<open>
  The price table that \<open>flat_prices\<close> returns for the tickers A, B and C.
\<close>

definition abc_prices :: frame where
  "abc_prices = \<lparr> columns = [Multi ''Adj Close'' ''A'', Multi ''Adj Close'' ''B'', Multi ''Adj Close'' ''C''],
       rows = [((2021, 2, 1), [Fin 1, Fin 1, Fin 1]), ((2021, 2, 2), [Fin 1, Fin 1, Fin 1]),
               ((2021, 2, 3), [Fin 1, Fin 1, Fin 1])] \<rparr>"

text \<open>
  Two request bodies that name the same analysis: the first leaves three
  members to their defaults; the second lists its members in another order and
  spells out one more default.
\<close>

definition defaults_left_out :: body where
  "defaults_left_out = [(''benchmark_ticker'', JString ''QQQ''), (''top_n_stocks'', JInt 5)]"

definition defaults_spelled_out :: body where
  "defaults_spelled_out =
     [(''top_n_stocks'', JInt 5), (''end_date'', JString ''2023-03-01''),
      (''benchmark_ticker'', JString ''QQQ'')]"

chapter \<open>Properties\<close>

section \<open>Rounding to binary64\<close>

lemma round_half_even_eqI:
  assumes "of_int m - 1/2 < y" and "y < of_int m + 1/2"
  shows "round_half_even y = m"
proof -
  have "\<lfloor>y\<rfloor> = m \<or> \<lfloor>y\<rfloor> = m - 1"
    using assms by linarith
  then show ?thesis
  proof
    assume f: "\<lfloor>y\<rfloor> = m"
    then show ?thesis using assms by (simp add: round_half_even_def Let_def)
  next
    assume f: "\<lfloor>y\<rfloor> = m - 1"
    then show ?thesis using assms by (simp add: round_half_even_def Let_def)
  qed
qed

lemma round_half_even_tie:
  assumes "y = of_int m + 1/2"
  shows "round_half_even y = (if even m then m else m + 1)"
proof -
  have "\<lfloor>y\<rfloor> = m" using assms by linarith
  then show ?thesis using assms by (simp add: round_half_even_def Let_def)
qed

lemma round_half_even_of_int: "round_half_even (of_int m) = m"
  by (rule round_half_even_eqI) simp_all

lemma round_half_even_near: "\<bar>of_int (round_half_even y) - y\<bar> \<le> 1/2"
proof -
  have "of_int \<lfloor>y\<rfloor> \<le> y" "y < of_int \<lfloor>y\<rfloor> + 1" by linarith+
  then show ?thesis
    by (auto simp: round_half_even_def Let_def)
qed


lemma exponent_eqI:
  assumes "2 powr of_int e \<le> \<bar>x\<bar>" and "\<bar>x\<bar> < 2 powr (of_int e + 1)"
  shows "exponent x = e"
proof -
  have "0 < \<bar>x\<bar>" using assms(1) by (smt (verit) powr_gt_zero)
  then show ?thesis
    using floor_log_eq_powr_iff [of "\<bar>x\<bar>" 2 e] assms by (simp add: exponent_def)
qed

lemma rnd64_normal:
  assumes e: "2 powr of_int e \<le> \<bar>x\<bar>" "\<bar>x\<bar> < 2 powr (of_int e + 1)"
    and r: "- 1022 \<le> e" "e \<le> 1022"
    and q: "q = 2 powr (of_int e - 52)"
    and m: "round_half_even (x / q) = m"
  shows "rnd64 x = Fin (of_int m * q)"
proof -
  have x0: "x \<noteq> 0" using e(1) by (smt (verit) powr_gt_zero)
  have ex: "exponent x = e" using e by (rule exponent_eqI)
  have q0: "0 < q" using q by simp
  have "\<bar>x\<bar> / q < 2 powr (of_int e + 1) / q"
    using e(2) q0 by (simp add: divide_strict_right_mono)
  also have "2 powr (of_int e + 1) / q = 2 powr 53"
    unfolding q by (simp add: powr_diff [symmetric])
  finally have xq: "\<bar>x / q\<bar> < 2 powr 53" using q0 by simp
  have "\<bar>of_int m - x / q\<bar> \<le> 1/2"
    using round_half_even_near [of "x / q"] m by simp
  with xq have "\<bar>real_of_int m\<bar> < 2 powr 53 + 1/2" by linarith
  then have s1: "\<bar>real_of_int m\<bar> * q < (2 powr 53 + 1/2) * q"
    using q0 by simp
  have s2: "(2 powr 53 + 1/2) * q \<le> 2 powr 54 * q"
    using q0 by (intro mult_right_mono) (simp_all add: powr_realpow [symmetric])
  have "2 powr 54 * q = 2 powr (54 + (of_int e - 52))"
    unfolding q by (simp only: powr_add)
  also have "\<dots> = 2 powr (of_int e + 2)"
    by (rule arg_cong [where f = "\<lambda>t. 2 powr t"]) simp
  finally have s3: "2 powr 54 * q = 2 powr (of_int e + 2)" .
  have s4: "(2::real) powr (of_int e + 2) \<le> 2 powr 1024"
    using r by (intro powr_mono) simp_all
  from s1 s2 s3 s4 have "\<bar>real_of_int m\<bar> * q < 2 powr 1024" by linarith
  then have "\<bar>of_int m * q\<bar> < 2 powr 1024"
    using q0 by (simp add: abs_mult)
  then show ?thesis
    using x0 ex r q m by (simp add: rnd64_def Let_def max_def)
qed

lemma rnd64_zero: "rnd64 0 = Fin 0"
  by (simp add: rnd64_def)

lemma rnd_binary64: "rnd (binary64 lm) = rnd64"
  by (simp add: binary64_def)


text \<open>
  One rounding in the normal range, evaluated: \<open>x\<close> lies in the binade of exponent
  \<open>e\<close>, and \<open>m\<close> is the nearest multiple of the unit in the last place \<open>q\<close>.
\<close>

lemma rnd64_eval:
  assumes "2 powr of_int e \<le> \<bar>x\<bar>" "\<bar>x\<bar> < 2 powr (of_int e + 1)"
    and "- 1022 \<le> e" "e \<le> 1022"
    and "q = 2 powr (of_int e - 52)"
    and "round_half_even (x / q) = m"
    and "y = of_int m * q"
  shows "rnd64 x = Fin y"
  using rnd64_normal [OF assms(1-6)] assms(7) by simp

lemmas rounding_eval = powr_minus_divide round_half_even_def Let_def

lemma rnd64_1: "rnd64 1 = Fin 1"
  by (rule rnd64_eval [where e = 0 and m = 4503599627370496 and q = "1 / 2 ^ 52"])
    (simp_all add: rounding_eval)

lemma rnd64_2: "rnd64 2 = Fin 2"
  by (rule rnd64_eval [where e = 1 and m = 4503599627370496 and q = "1 / 2 ^ 51"])
    (simp_all add: rounding_eval)

lemma rnd64_4: "rnd64 4 = Fin 4"
  by (rule rnd64_eval [where e = 2 and m = 4503599627370496 and q = "1 / 2 ^ 50"])
    (simp_all add: rounding_eval)

lemma rnd64_6: "rnd64 6 = Fin 6"
  by (rule rnd64_eval [where e = 2 and m = 6755399441055744 and q = "1 / 2 ^ 50"])
    (simp_all add: rounding_eval)

lemma sqrt_252_rounded: "rsqrt (binary64 rounded_library) (Fin (252)) = Fin (8936553463969119 / 562949953421312)"
proof -
  have lo: "(17873106927938237 / 1125899906842624)\<^sup>2 < (252 :: real)" by (simp add: power2_eq_square)
  have hi: "(252 :: real) < (17873106927938239 / 1125899906842624)\<^sup>2" by (simp add: power2_eq_square)
  have l: "17873106927938237 / 1125899906842624 < sqrt (252)" using lo by (rule real_less_rsqrt)
  have h: "sqrt (252) < 17873106927938239 / 1125899906842624" using hi by (intro real_less_lsqrt) simp_all
  have "rnd64 (sqrt (252)) = Fin (8936553463969119 / 562949953421312)"
  proof (rule rnd64_eval [where e = "3" and m = 8936553463969119 and q = "1 / 2 ^ 49"])
    show "round_half_even (sqrt (252) / (1 / 2 ^ 49)) = 8936553463969119"
      using l h by (intro round_half_even_eqI) simp_all
    show "2 powr real_of_int (3) \<le> \<bar>sqrt (252)\<bar>"
      using l by (simp add: rounding_eval)
    show "\<bar>sqrt (252)\<bar> < 2 powr (real_of_int (3) + 1)"
      using h by (simp add: rounding_eval)
  qed (simp_all add: rounding_eval)
  then show ?thesis by (simp add: rsqrt_def round_to_def rnd_binary64)
qed



section \<open>Performance metrics: the Sharpe ratio\<close>

lemma radd_zero:
  assumes "rnd ar 0 = Fin 0"
  shows "radd ar (Fin 0) (Fin 0) = Fin 0"
  using assms by (simp add: radd_def round_to_def)

lemma foldl_radd_zeros:
  assumes "rnd ar 0 = Fin 0" and "\<forall>x\<in>set xs. x = Fin 0"
  shows "foldl (radd ar) (Fin 0) xs = Fin 0"
  using assms(2) by (induction xs) (simp_all add: radd_zero [OF assms(1)])

lemma lane_zeros:
  assumes z: "rnd ar 0 = Fin 0" and a: "\<forall>x\<in>set a. x = Fin 0"
    and j: "j < 8" and n: "8 \<le> length a" and m: "m \<le> length a"
  shows "lane ar a m j = Fin 0"
proof -
  have i: "a ! i = Fin 0" if "i < length a" for i
    using a that by simp
  have "\<forall>x\<in>set (map (\<lambda>k. a ! (8 * k + j)) [1..<m div 8]). x = Fin 0"
  proof
    fix x assume "x \<in> set (map (\<lambda>k. a ! (8 * k + j)) [1..<m div 8])"
    then obtain k where k: "k < m div 8" and x: "x = a ! (8 * k + j)" by auto
    from k j have "8 * k + j < 8 * (m div 8)" by simp
    also have "\<dots> \<le> m" by simp
    finally have "8 * k + j < length a" using m by simp
    with x show "x = Fin 0" by (simp add: i)
  qed
  moreover have "a ! j = Fin 0" using j n by (simp add: i)
  ultimately show ?thesis
    using foldl_radd_zeros [OF z] by (simp add: lane_def)
qed

lemma pairwise_sum_zeros:
  "rnd ar 0 = Fin 0 \<Longrightarrow> \<forall>x\<in>set a. x = Fin 0 \<Longrightarrow> pairwise_sum ar a = Fin 0"
proof (induction ar a rule: pairwise_sum.induct)
  case (1 ar a)
  note z = \<open>rnd ar 0 = Fin 0\<close> and a = \<open>\<forall>x\<in>set a. x = Fin 0\<close>
  show ?case
  proof (cases "length a < 8")
    case True
    then show ?thesis
      using foldl_radd_zeros [OF z a] by (subst pairwise_sum.simps) simp
  next
    case n8: False
    show ?thesis
    proof (cases "length a \<le> 128")
      case True
      have l: "lane ar a (length a - length a mod 8) j = Fin 0" if "j < 8" for j
        using z a that n8 by (intro lane_zeros) simp_all
      have "\<forall>x\<in>set (drop (length a - length a mod 8) a). x = Fin 0"
        using a by (meson in_set_dropD)
      then have d: "foldl (radd ar) (Fin 0) (drop (length a - length a mod 8) a) = Fin 0"
        by (rule foldl_radd_zeros [OF z])
      show ?thesis
        using n8 True d by (subst pairwise_sum.simps) (simp add: Let_def l radd_zero [OF z])
    next
      case False
      define n2 where "n2 = length a div 2 - length a div 2 mod 8"
      have "\<forall>x\<in>set (take n2 a). x = Fin 0" using a by (meson in_set_takeD)
      then have t: "pairwise_sum ar (take n2 a) = Fin 0"
        using "1.IH"(1) [OF refl n8 False n2_def z] by simp
      have "\<forall>x\<in>set (drop n2 a). x = Fin 0" using a by (meson in_set_dropD)
      then have d: "pairwise_sum ar (drop n2 a) = Fin 0"
        using "1.IH"(2) [OF refl n8 False n2_def z] by simp
      show ?thesis
        using n8 False t d
        by (subst pairwise_sum.simps) (simp add: Let_def n2_def radd_zero [OF z])
    qed
  qed
qed

lemma pairwise_sum_short: "length a < 8 \<Longrightarrow> pairwise_sum ar a = foldl (radd ar) (Fin 0) a"
  by (subst pairwise_sum.simps) simp

lemma mask0_finite: "\<forall>x\<in>set s. x = Fin c \<Longrightarrow> mask0 s = s"
  by (induction s) (simp_all add: mask0_def)

lemma count_finite: "\<forall>x\<in>set s. x = Fin c \<Longrightarrow> count s = length s"
  by (induction s) (simp_all add: count_def)

lemma count_le_length: "count s \<le> length s"
  by (simp add: count_def)

lemma squares_constant:
  assumes "rnd ar 0 = Fin 0" and "\<forall>x\<in>set s. x = Fin c"
  shows "\<forall>y\<in>set (map (\<lambda>(x, v). if isna x then Fin 0
             else rmul ar (rsub ar (Fin c) v) (rsub ar (Fin c) v)) (zip s s)). y = Fin 0"
proof -
  have "rsub ar (Fin c) (Fin c) = Fin 0"
    using assms(1) by (simp add: rsub_def fsub_def round_to_def)
  moreover have "rmul ar (Fin 0) (Fin 0) = Fin 0"
    using assms(1) by (simp add: rmul_def round_to_def)
  moreover have "s ! i = Fin c" if "i < length s" for i
    using assms(2) that by simp
  ultimately show ?thesis
    by (auto simp: set_zip)
qed

lemma std_constant_series:
  assumes z: "rnd ar 0 = Fin 0" and c: "\<forall>x\<in>set s. x = Fin c" and m: "mean ar s = Fin c"
    and n: "2 \<le> length s"
  shows "std ar s = Fin 0"
proof -
  have cnt: "count s = length s" using c by (rule count_finite)
  have msk: "mask0 s = s" using c by (rule mask0_finite)
  have avg: "rdiv ar (pairwise_sum ar s) (Fin (real (length s))) = Fin c"
    using m n unfolding mean_def cnt msk by (simp split: if_splits)
  have "pairwise_sum ar (map (\<lambda>(x, v). if isna x then Fin 0
             else rmul ar (rsub ar (Fin c) v) (rsub ar (Fin c) v)) (zip s s)) = Fin 0"
    using z squares_constant [OF z c] by (rule pairwise_sum_zeros)
  moreover have "rdiv ar (Fin 0) (Fin (real (length s - 1))) = Fin 0"
    using z n by (simp add: rdiv_def round_to_def)
  moreover have "rsqrt ar (Fin 0) = Fin 0"
    using z by (simp add: rsqrt_def round_to_def)
  ultimately show ?thesis
    using n unfolding std_def cnt msk Let_def avg by simp
qed

lemma not_fpos_zero_times:
  assumes "rnd ar 0 = Fin 0"
  shows "\<not> fpos (rmul ar (Fin 0) b)"
  using assms by (cases b) (simp_all add: rmul_def round_to_def inf_of_sign_def)

lemma sharpe_ratio_guard:
  assumes z: "rnd ar 0 = Fin 0"
    and r: "length r \<le> 1 \<or> (\<exists>c. (\<forall>x\<in>set r. x = Fin c) \<and> mean ar r = Fin c)"
  shows "\<not> fpos (volatility ar r) \<and> sharpe_ratio ar r = Fin 0"
proof -
  have "\<not> fpos (volatility ar r)"
  proof (cases "length r \<le> 1")
    case True
    then have "count r \<le> 1" using count_le_length [of r] by simp
    then show ?thesis by (simp add: volatility_def std_def rmul_def round_to_def)
  next
    case False
    with r obtain c where c: "\<forall>x\<in>set r. x = Fin c" and m: "mean ar r = Fin c" by blast
    from False have "2 \<le> length r" by simp
    with z c m have "std ar r = Fin 0" by (rule std_constant_series)
    then show ?thesis using not_fpos_zero_times [OF z] by (simp add: volatility_def)
  qed
  then show ?thesis by (simp add: sharpe_ratio_def)
qed

text \<open>
  C6, as the code has it. In float64 the Sharpe ratio is exactly 0 whenever the
  computed volatility is not greater than 0, and the division is evaluated
  only when it is. That is so for a series of at most one observation, the
  empty series included (the standard deviation is NaN), and for a constant
  series whose mean is computed without rounding error (every deviation, and so
  the standard deviation, is then exactly 0).
\<close>

theorem sharpe_ratio_zero_variance:
  assumes "length r \<le> 1 \<or> (\<exists>c. (\<forall>x\<in>set r. x = Fin c) \<and> mean (binary64 lm) r = Fin c)"
  shows "\<not> fpos (volatility (binary64 lm) r) \<and> sharpe_ratio (binary64 lm) r = Fin 0"
proof (rule sharpe_ratio_guard)
  show "rnd (binary64 lm) 0 = Fin 0" by (simp add: rnd_binary64 rnd64_zero)
qed (rule assms)

text \<open>
  Three observations of 2: the sums 2, 4 and 6 and the mean 2 are computed
  without rounding error. The empty series and a series of one observation.
\<close>

lemma mean_twos: "mean (binary64 rounded_library) [Fin 2, Fin 2, Fin 2] = Fin 2"
  by (simp add: mean_def count_def mask0_def pairwise_sum_short radd_def rdiv_def round_to_def
      rnd_binary64 rnd64_2 rnd64_4 rnd64_6)

theorem sharpe_ratio_zero_variance_witness:
  "mean (binary64 rounded_library) [Fin 2, Fin 2, Fin 2] = Fin 2
   \<and> sharpe_ratio (binary64 rounded_library) [Fin 2, Fin 2, Fin 2] = Fin 0
   \<and> sharpe_ratio (binary64 rounded_library) [] = Fin 0
   \<and> sharpe_ratio (binary64 rounded_library) [Fin 7] = Fin 0"
  using sharpe_ratio_zero_variance [of "[Fin 2, Fin 2, Fin 2]" rounded_library]
    sharpe_ratio_zero_variance [of "[]" rounded_library]
    sharpe_ratio_zero_variance [of "[Fin 7]" rounded_library] mean_twos
  by simp

text \<open>
  C6 as stated fails. The series of three observations of 0.1 is constant, but
  its sum is rounded, the computed mean is one unit in the last place above
  0.1, the computed standard deviation is about \<open>1.7e-17\<close>, not 0, the guard
  \<open>volatility > 0\<close> holds and the Sharpe ratio is about \<open>9.3e16\<close>.
\<close>

lemma tenths_sum_1: "radd (binary64 rounded_library) (Fin 0) (Fin point_one) = Fin point_one"
  by (simp add: radd_def fsub_def round_to_def rnd_binary64 point_one_def,
      rule rnd64_eval [where e = "- 4" and m = 7205759403792794 and q = "1 / 2 ^ 56"], simp_all add: rounding_eval)

lemma tenths_sum_2: "radd (binary64 rounded_library) (Fin point_one) (Fin point_one) = Fin (3602879701896397 / 18014398509481984)"
  by (simp add: radd_def fsub_def round_to_def rnd_binary64 point_one_def,
      rule rnd64_eval [where e = "- 3" and m = 7205759403792794 and q = "1 / 2 ^ 55"], simp_all add: rounding_eval)

lemma tenths_sum_3: "radd (binary64 rounded_library) (Fin (3602879701896397 / 18014398509481984)) (Fin point_one) = Fin (1351079888211149 / 4503599627370496)"
  by (simp add: radd_def fsub_def round_to_def rnd_binary64 point_one_def,
      rule rnd64_eval [where e = "- 2" and m = 5404319552844596 and q = "1 / 2 ^ 54"], simp_all add: rounding_eval)

lemma tenths_mean: "rdiv (binary64 rounded_library) (Fin (1351079888211149 / 4503599627370496)) (Fin (3)) = Fin (7205759403792795 / 72057594037927936)"
  by (simp add: rdiv_def fsub_def round_to_def rnd_binary64 point_one_def,
      rule rnd64_eval [where e = "- 4" and m = 7205759403792795 and q = "1 / 2 ^ 56"], simp_all add: rounding_eval)

lemma tenths_deviation: "rsub (binary64 rounded_library) (Fin (7205759403792795 / 72057594037927936)) (Fin point_one) = Fin (1 / 72057594037927936)"
  by (simp add: rsub_def fsub_def round_to_def rnd_binary64 point_one_def,
      rule rnd64_eval [where e = "- 56" and m = 4503599627370496 and q = "1 / 2 ^ 108"], simp_all add: rounding_eval)

lemma tenths_square: "rmul (binary64 rounded_library) (Fin (1 / 72057594037927936)) (Fin (1 / 72057594037927936)) = Fin (1 / 5192296858534827628530496329220096)"
  by (simp add: rmul_def fsub_def round_to_def rnd_binary64 point_one_def,
      rule rnd64_eval [where e = "- 112" and m = 4503599627370496 and q = "1 / 2 ^ 164"], simp_all add: rounding_eval)

lemma tenths_squares_1: "radd (binary64 rounded_library) (Fin 0) (Fin (1 / 5192296858534827628530496329220096)) = Fin (1 / 5192296858534827628530496329220096)"
  by (simp add: radd_def fsub_def round_to_def rnd_binary64 point_one_def,
      rule rnd64_eval [where e = "- 112" and m = 4503599627370496 and q = "1 / 2 ^ 164"], simp_all add: rounding_eval)

lemma tenths_squares_2: "radd (binary64 rounded_library) (Fin (1 / 5192296858534827628530496329220096)) (Fin (1 / 5192296858534827628530496329220096)) = Fin (1 / 2596148429267413814265248164610048)"
  by (simp add: radd_def fsub_def round_to_def rnd_binary64 point_one_def,
      rule rnd64_eval [where e = "- 111" and m = 4503599627370496 and q = "1 / 2 ^ 163"], simp_all add: rounding_eval)

lemma tenths_squares_3: "radd (binary64 rounded_library) (Fin (1 / 2596148429267413814265248164610048)) (Fin (1 / 5192296858534827628530496329220096)) = Fin (3 / 5192296858534827628530496329220096)"
  by (simp add: radd_def fsub_def round_to_def rnd_binary64 point_one_def,
      rule rnd64_eval [where e = "- 111" and m = 6755399441055744 and q = "1 / 2 ^ 163"], simp_all add: rounding_eval)

lemma tenths_variance: "rdiv (binary64 rounded_library) (Fin (3 / 5192296858534827628530496329220096)) (Fin (2)) = Fin (3 / 10384593717069655257060992658440192)"
  by (simp add: rdiv_def fsub_def round_to_def rnd_binary64 point_one_def,
      rule rnd64_eval [where e = "- 112" and m = 6755399441055744 and q = "1 / 2 ^ 164"], simp_all add: rounding_eval)

lemma tenths_std: "rsqrt (binary64 rounded_library) (Fin (3 / 10384593717069655257060992658440192)) = Fin (2757880273211543 / 162259276829213363391578010288128)"
proof -
  have lo: "(11031521092846171 / 649037107316853453566312041152512)\<^sup>2 < (3 / 10384593717069655257060992658440192 :: real)" by (simp add: power2_eq_square)
  have hi: "(3 / 10384593717069655257060992658440192 :: real) < (11031521092846173 / 649037107316853453566312041152512)\<^sup>2" by (simp add: power2_eq_square)
  have l: "11031521092846171 / 649037107316853453566312041152512 < sqrt (3 / 10384593717069655257060992658440192)" using lo by (rule real_less_rsqrt)
  have h: "sqrt (3 / 10384593717069655257060992658440192) < 11031521092846173 / 649037107316853453566312041152512" using hi by (intro real_less_lsqrt) simp_all
  have "rnd64 (sqrt (3 / 10384593717069655257060992658440192)) = Fin (2757880273211543 / 162259276829213363391578010288128)"
  proof (rule rnd64_eval [where e = "- 56" and m = 5515760546423086 and q = "1 / 2 ^ 108"])
    show "round_half_even (sqrt (3 / 10384593717069655257060992658440192) / (1 / 2 ^ 108)) = 5515760546423086"
      using l h by (intro round_half_even_eqI) simp_all
    show "2 powr real_of_int (- 56) \<le> \<bar>sqrt (3 / 10384593717069655257060992658440192)\<bar>"
      using l by (simp add: rounding_eval)
    show "\<bar>sqrt (3 / 10384593717069655257060992658440192)\<bar> < 2 powr (real_of_int (- 56) + 1)"
      using h by (simp add: rounding_eval)
  qed (simp_all add: rounding_eval)
  then show ?thesis by (simp add: rsqrt_def round_to_def rnd_binary64)
qed

lemma tenths_volatility: "rmul (binary64 rounded_library) (Fin (2757880273211543 / 162259276829213363391578010288128)) (Fin (8936553463969119 / 562949953421312)) = Fin (5472499011456459 / 20282409603651670423947251286016)"
  by (simp add: rmul_def fsub_def round_to_def rnd_binary64 point_one_def,
      rule rnd64_eval [where e = "- 52" and m = 5472499011456459 and q = "1 / 2 ^ 104"], simp_all add: rounding_eval)

lemma tenths_annual_mean: "rmul (binary64 rounded_library) (Fin (7205759403792795 / 72057594037927936)) (Fin (252)) = Fin (7093169413108533 / 281474976710656)"
  by (simp add: rmul_def fsub_def round_to_def rnd_binary64 point_one_def,
      rule rnd64_eval [where e = "4" and m = 7093169413108533 and q = "1 / 2 ^ 48"], simp_all add: rounding_eval)

lemma tenths_ratio: "rdiv (binary64 rounded_library) (Fin (7093169413108533 / 281474976710656)) (Fin (5472499011456459 / 20282409603651670423947251286016)) = Fin (93397316462190256)"
  by (simp add: rdiv_def fsub_def round_to_def rnd_binary64 point_one_def,
      rule rnd64_eval [where e = "56" and m = 5837332278886891 and q = "16"], simp_all add: rounding_eval)

lemma mean_tenths:
  "mean (binary64 rounded_library) [Fin point_one, Fin point_one, Fin point_one]
     = Fin (7205759403792795 / 72057594037927936)"
  by (simp add: mean_def count_def mask0_def pairwise_sum_short tenths_sum_1 tenths_sum_2 tenths_sum_3 tenths_mean)

lemma std_tenths:
  "std (binary64 rounded_library) [Fin point_one, Fin point_one, Fin point_one]
     = Fin (2757880273211543 / 162259276829213363391578010288128)"
  by (simp add: std_def count_def mask0_def pairwise_sum_short Let_def
      tenths_sum_1 tenths_sum_2 tenths_sum_3 tenths_mean tenths_deviation tenths_square tenths_squares_1 tenths_squares_2 tenths_squares_3 tenths_variance tenths_std)

lemma volatility_tenths:
  "volatility (binary64 rounded_library) [Fin point_one, Fin point_one, Fin point_one]
     = Fin (5472499011456459 / 20282409603651670423947251286016)"
  by (simp add: volatility_def std_tenths sqrt_252_rounded tenths_volatility)

theorem constant_series_counterexample:
  "set [Fin point_one, Fin point_one, Fin point_one] = {Fin point_one}
   \<and> std (binary64 rounded_library) [Fin point_one, Fin point_one, Fin point_one]
       = Fin (2757880273211543 / 162259276829213363391578010288128)
   \<and> sharpe_ratio (binary64 rounded_library) [Fin point_one, Fin point_one, Fin point_one]
       = Fin 93397316462190256"
  by (simp add: sharpe_ratio_def volatility_tenths std_tenths mean_tenths tenths_annual_mean
      tenths_ratio)

section \<open>Performance metrics: the cumulative return\<close>























section \<open>Sentiment aggregation: the rank\<close>

lemma positions_of_below:
  assumes "\<forall>x\<in>set xs. x < v"
  shows "positions_of v xs i = []"
  using assms by (induction xs arbitrary: i) auto

lemma positions_of_sorted:
  assumes "sorted_wrt (\<lambda>x y. y \<le> x) xs"
  shows "positions_of v xs i =
     [i + length (filter (\<lambda>x. v < x) xs) ..<
      i + length (filter (\<lambda>x. v < x) xs) + length (filter (\<lambda>x. x = v) xs)]"
  using assms
proof (induction xs arbitrary: i)
  case Nil
  then show ?case by simp
next
  case (Cons x xs)
  then have tl: "sorted_wrt (\<lambda>x y. y \<le> x) xs" and le: "\<forall>y\<in>set xs. y \<le> x" by auto
  consider "v < x" | "x = v" | "x < v" by fastforce
  then show ?case
  proof cases
    case 1
    then show ?thesis using Cons.IH [OF tl, of "i + 1"] by simp
  next
    case 2
    then have "filter (\<lambda>y. v < y) xs = []" using le by (auto simp: filter_empty_conv)
    then show ?thesis using 2 Cons.IH [OF tl, of "i + 1"] by (simp add: upt_rec)
  next
    case 3
    then have b: "\<forall>y\<in>set xs. y < v" using le by auto
    then have "filter (\<lambda>y. v < y) xs = []" "filter (\<lambda>y. y = v) xs = []"
      by (auto simp: filter_empty_conv)
    then show ?thesis using 3 positions_of_below [OF b] by simp
  qed
qed

lemma sum_list_upt_run: "2 * sum_list [a ..< a + k] + k = k * (2 * a + k)"
  by (induction k) (simp_all add: algebra_simps)

lemma length_filter_rev_sort:
  "length (filter P (rev (sort vs))) = length (filter P (vs :: real list))"
  by (simp add: rev_filter [symmetric] filter_sort)

lemma mean_of_run:
  assumes "0 < k"
  shows "real (sum_list [a ..< a + k]) / real k = real a + (real k - 1) / 2"
proof -
  define S where "S = sum_list [a ..< a + k]"
  have "2 * S + k = k * (2 * a + k)"
    unfolding S_def by (rule sum_list_upt_run)
  then have "real (2 * S + k) = real (k * (2 * a + k))"
    by (rule arg_cong)
  then have "2 * real S = real k * (2 * real a + real k - 1)"
    by (simp add: algebra_simps)
  then have "real S / real k = real a + (real k - 1) / 2"
    using assms by (simp add: field_simps)
  then show ?thesis by (simp add: S_def)
qed

lemma rank_descending_closed:
  assumes "v \<in> set vs"
  shows "rank_descending vs v =
     real (length (filter (\<lambda>x. v < x) vs)) + (real (length (filter (\<lambda>x. x = v) vs)) + 1) / 2"
proof -
  let ?g = "length (filter (\<lambda>x. v < x) vs)" and ?k = "length (filter (\<lambda>x. x = v) vs)"
  have s: "sorted_wrt (\<lambda>x y. y \<le> x) (rev (sort vs))"
    by (simp add: sorted_wrt_rev)
  have p: "positions_of v (rev (sort vs)) 1 = [1 + ?g ..< 1 + ?g + ?k]"
    using positions_of_sorted [OF s, of v 1] by (simp add: length_filter_rev_sort)
  have k: "0 < ?k" using assms by (auto simp: filter_empty_conv)
  have len: "length [1 + ?g ..< 1 + ?g + ?k] = ?k"
    by (simp only: length_upt diff_add_inverse)
  have "rank_descending vs v =
      real (sum_list [1 + ?g ..< 1 + ?g + ?k]) / real (length [1 + ?g ..< 1 + ?g + ?k])"
    by (simp only: rank_descending_def Let_def p)
  also have "\<dots> = real (sum_list [1 + ?g ..< 1 + ?g + ?k]) / real ?k"
    by (simp only: len)
  also have "\<dots> = real (1 + ?g) + (real ?k - 1) / 2"
    using k by (rule mean_of_run)
  finally show ?thesis by (simp add: field_simps)
qed

lemma set_unique: "set (unique xs) = set xs"
  by (induction xs rule: unique.induct) auto

lemma map_of_keyed:
  "map_of (map (\<lambda>k. (k, g k)) ks) d = (if d \<in> set ks then Some (g d) else None)"
  by (induction ks) auto

lemma holds_get_portfolio_dates:
  "holds (get_portfolio_dates f) d s \<longleftrightarrow> (\<exists>r\<in>set f. a_date r = d \<and> a_symbol r = s)"
  by (auto simp: holds_def get_portfolio_dates_def map_of_keyed set_unique)

lemma holds_filter_top_stocks:
  "holds (get_portfolio_dates (filter_top_stocks n agg)) d s \<longleftrightarrow>
     (\<exists>r\<in>set agg. a_rank r < real_of_int (n + 1) \<and> date_offset_1 (a_date r) = d \<and> a_symbol r = s)"
  by (auto simp: holds_get_portfolio_dates filter_top_stocks_def)

lemma group_keys_month_end:
  assumes "k \<in> set (group_keys df)"
  shows "\<exists>y m. fst k = (y, m, days_in_month y m)"
proof -
  from assms have "k \<in> (\<lambda>r. (month_end (s_date r), s_symbol r)) ` set df"
    by (simp add: group_keys_def)
  then obtain r :: sentiment_row where "k = (month_end (s_date r), s_symbol r)"
    by blast
  then show ?thesis by (cases "s_date r") auto
qed

lemma aggregate_date_month_end:
  assumes "r \<in> set (aggregate_sentiment df)"
  shows "\<exists>y m. a_date r = (y, m, days_in_month y m)"
  using assms group_keys_month_end by (fastforce simp: aggregate_sentiment_def)

lemma date_offset_1_month_end:
  "date_offset_1 (y, m, days_in_month y m) = first_of_next_month y m"
  by simp

lemma month_ratios_aggregate:
  "month_ratios df m =
     map a_engagement_ratio (filter (\<lambda>q. a_date q = m) (aggregate_sentiment df))"
  by (simp add: month_ratios_def aggregate_sentiment_def filter_map comp_def)

lemma aggregate_rank:
  assumes "r \<in> set (aggregate_sentiment df)"
  shows "a_rank r = rank_descending (month_ratios df (a_date r)) (a_engagement_ratio r)"
    and "a_engagement_ratio r \<in> set (month_ratios df (a_date r))"
  using assms by (auto simp: aggregate_sentiment_def month_ratios_def)

lemmas sentiment_eval =
  load_sentiment_data_def group_keys_def group_mean_def month_ratios_def mean_of_def
  engagement_ratio_def aggregate_sentiment_def rank_descending_def filter_top_stocks_def
  get_portfolio_dates_def build_composition_def days_in_month_def is_leap_def
  first_of_next_month_def Let_def

lemma count_above:
  "v2 < v1 \<Longrightarrow>
     length (filter (\<lambda>x. v1 < x) xs) + length (filter (\<lambda>x. x = v1) xs)
       \<le> length (filter (\<lambda>x. v2 < x) (xs :: real list))"
  by (induction xs) auto

lemma rank_descending_strict:
  assumes "v1 \<in> set vs" and "v2 \<in> set vs" and "v2 < v1"
  shows "rank_descending vs v1 < rank_descending vs v2"
proof -
  let ?g1 = "length (filter (\<lambda>x. v1 < x) vs)" and ?k1 = "length (filter (\<lambda>x. x = v1) vs)"
  let ?g2 = "length (filter (\<lambda>x. v2 < x) vs)" and ?k2 = "length (filter (\<lambda>x. x = v2) vs)"
  have k1: "1 \<le> real ?k1" using assms(1) by (auto simp: filter_empty_conv Suc_le_eq)
  have "?g1 + ?k1 \<le> ?g2" using assms(3) by (rule count_above)
  then have "real ?g1 + real ?k1 \<le> real ?g2" by linarith
  then have "real ?g1 + (real ?k1 + 1) / 2 < real ?g2 + (real ?k2 + 1) / 2"
    using k1 by (simp add: field_simps) 
  then show ?thesis
    by (simp only: rank_descending_closed [OF assms(1)] rank_descending_closed [OF assms(2)])
qed

text \<open>
  C3, as the code has it. The rank of each row of the monthly aggregation is the
  average-method rank, descending by mean engagement ratio and computed within
  the row's month: the number of symbols of that month with a larger mean, plus
  half of (the number of symbols of that month with the same mean, the row
  itself included, plus one). A larger mean has a strictly smaller rank and equal
  means share one rank; the ranks are not dense, a tie leaves a gap.
\<close>

theorem rank_is_average_rank:
  assumes "r \<in> set (aggregate_sentiment df)"
  shows "a_rank r =
      real (length (filter (\<lambda>q. a_date q = a_date r \<and> a_engagement_ratio r < a_engagement_ratio q)
                      (aggregate_sentiment df)))
      + (real (length (filter (\<lambda>q. a_date q = a_date r \<and> a_engagement_ratio q = a_engagement_ratio r)
                      (aggregate_sentiment df))) + 1) / 2
    \<and> (\<forall>q\<in>set (aggregate_sentiment df).
          a_date q = a_date r \<and> a_engagement_ratio r < a_engagement_ratio q \<longrightarrow> a_rank q < a_rank r)
    \<and> (\<forall>q\<in>set (aggregate_sentiment df).
          a_date q = a_date r \<and> a_engagement_ratio q = a_engagement_ratio r \<longrightarrow> a_rank q = a_rank r)"
proof (intro conjI ballI impI)
  show "a_rank r =
      real (length (filter (\<lambda>q. a_date q = a_date r \<and> a_engagement_ratio r < a_engagement_ratio q)
                      (aggregate_sentiment df)))
      + (real (length (filter (\<lambda>q. a_date q = a_date r \<and> a_engagement_ratio q = a_engagement_ratio r)
                      (aggregate_sentiment df))) + 1) / 2"
    using rank_descending_closed [OF aggregate_rank(2) [OF assms]] aggregate_rank(1) [OF assms]
    by (simp add: month_ratios_aggregate filter_map comp_def)
next
  fix q assume q: "q \<in> set (aggregate_sentiment df)"
    and h: "a_date q = a_date r \<and> a_engagement_ratio r < a_engagement_ratio q"
  have "rank_descending (month_ratios df (a_date r)) (a_engagement_ratio q)
      < rank_descending (month_ratios df (a_date r)) (a_engagement_ratio r)"
    using aggregate_rank(2) [OF q] aggregate_rank(2) [OF assms] h
    by (intro rank_descending_strict) simp_all
  then show "a_rank q < a_rank r"
    using aggregate_rank(1) [OF q] aggregate_rank(1) [OF assms] h by simp
next
  fix q assume q: "q \<in> set (aggregate_sentiment df)"
    and h: "a_date q = a_date r \<and> a_engagement_ratio q = a_engagement_ratio r"
  then show "a_rank q = a_rank r"
    using aggregate_rank(1) [OF q] aggregate_rank(1) [OF assms] by simp
qed

theorem rank_is_average_rank_witness:
  "\<lparr> a_date = (2021, 1, 31), a_symbol = ''C'', a_engagement_ratio = 3/10, a_rank = 3 \<rparr>
      \<in> set (aggregate_sentiment (load_sentiment_data tied_pair_then_third))
   \<and> a_rank \<lparr> a_date = (2021, 1, 31), a_symbol = ''C'', a_engagement_ratio = 3/10, a_rank = 3 \<rparr>
      = real 2 + (real 1 + 1) / 2"
  using rank_is_average_rank [of
      "\<lparr> a_date = (2021, 1, 31), a_symbol = ''C'', a_engagement_ratio = 3/10, a_rank = 3 \<rparr>"
      "load_sentiment_data tied_pair_then_third"]
  by (simp add: tied_pair_then_third_def sentiment_eval)

text \<open>
  C3 as stated fails: with the means 1/2, 1/2 and 3/10 in one month the code's
  ranks are 1.5, 1.5 and 3, where the dense ranks are 1, 1 and 2.
\<close>

theorem rank_not_dense_counterexample:
  "map a_rank (aggregate_sentiment (load_sentiment_data tied_pair_then_third)) = [3/2, 3/2, 3]
   \<and> map (\<lambda>r. dense_rank_descending
               (month_ratios (load_sentiment_data tied_pair_then_third) (a_date r))
               (a_engagement_ratio r))
         (aggregate_sentiment (load_sentiment_data tied_pair_then_third)) = [1, 1, 2]"
  by (simp add: tied_pair_then_third_def sentiment_eval dense_rank_descending_def)

section \<open>Sentiment aggregation: the composition\<close>

text \<open>
  C2. A symbol is held from date \<open>d\<close> exactly when some month M ranks it within the
  top N (the code's test, \<open>rank < top_n + 1\<close>) and \<open>d\<close> is the first day of month
  M+1; that date is the label of month M, its last day, moved forward by
  \<open>pd.DateOffset(1)\<close>, one day.
\<close>

theorem holding_start_follows_signal_month:
  "(holds (build_composition top_n csv) d s \<longleftrightarrow>
      (\<exists>r\<in>set (aggregate_sentiment (load_sentiment_data csv)).
          a_symbol r = s \<and> a_rank r < real_of_int (top_n + 1) \<and>
          (\<exists>y m. a_date r = (y, m, days_in_month y m) \<and> d = first_of_next_month y m)))
   \<and> date_offset_1 (y, m, days_in_month y m) = first_of_next_month y m"
proof
  let ?agg = "aggregate_sentiment (load_sentiment_data csv)"
  have "(\<exists>r\<in>set ?agg. a_rank r < real_of_int (top_n + 1) \<and> date_offset_1 (a_date r) = d \<and> a_symbol r = s)
     \<longleftrightarrow> (\<exists>r\<in>set ?agg. a_symbol r = s \<and> a_rank r < real_of_int (top_n + 1) \<and>
          (\<exists>y m. a_date r = (y, m, days_in_month y m) \<and> d = first_of_next_month y m))"
    (is "?L \<longleftrightarrow> ?R")
  proof
    assume ?L
    then obtain r where r: "r \<in> set ?agg" "a_rank r < real_of_int (top_n + 1)"
      "date_offset_1 (a_date r) = d" "a_symbol r = s" by blast
    from aggregate_date_month_end [OF r(1)] obtain y m where ym: "a_date r = (y, m, days_in_month y m)"
      by blast
    with r(3) have "d = first_of_next_month y m" by simp
    with r ym show ?R by blast
  next
    assume ?R
    then obtain r y m where r: "r \<in> set ?agg" "a_symbol r = s" "a_rank r < real_of_int (top_n + 1)"
      "a_date r = (y, m, days_in_month y m)" "d = first_of_next_month y m" by blast
    then have "date_offset_1 (a_date r) = d" by simp
    with r show ?L by blast
  qed
  then show "holds (build_composition top_n csv) d s \<longleftrightarrow>
      (\<exists>r\<in>set ?agg. a_symbol r = s \<and> a_rank r < real_of_int (top_n + 1) \<and>
          (\<exists>y m. a_date r = (y, m, days_in_month y m) \<and> d = first_of_next_month y m))"
    by (simp only: build_composition_def holds_filter_top_stocks)
next
  show "date_offset_1 (y, m, days_in_month y m) = first_of_next_month y m" by simp
qed

theorem holding_start_follows_signal_month_witness:
  "build_composition 1 tied_pair_then_third = [((2021, 2, 1), [''A'', ''B''])]
   \<and> holds (build_composition 1 tied_pair_then_third) (2021, 2, 1) ''A''
   \<and> \<not> holds (build_composition 1 tied_pair_then_third) (2021, 1, 31) ''A''
   \<and> date_offset_1 (2021, 1, 31) = (2021, 2, 1)"
  using holding_start_follows_signal_month [of 1 tied_pair_then_third "(2021, 2, 1)" "''A''" 2021 1]
  by (simp add: tied_pair_then_third_def sentiment_eval holds_def)

lemma aggregate_row_key:
  assumes "r \<in> set (aggregate_sentiment df)" and "q \<in> set (aggregate_sentiment df)"
    and "a_date r = a_date q" and "a_symbol r = a_symbol q"
  shows "r = q"
  using assms by (auto simp: aggregate_sentiment_def)

lemma first_of_next_month_inj:
  assumes "first_of_next_month y m = first_of_next_month y' m'"
    and "1 \<le> m" "m \<le> 12" "1 \<le> m'" "m' \<le> 12"
  shows "y = y' \<and> m = m'"
  using assms by (auto simp: first_of_next_month_def split: if_splits)

lemma aggregate_valid_month:
  assumes "\<forall>x\<in>set df. valid_date (s_date x)" and "r \<in> set (aggregate_sentiment df)"
  shows "\<exists>y m. a_date r = (y, m, days_in_month y m) \<and> 1 \<le> m \<and> m \<le> 12"
proof -
  from assms(2) have "(a_date r, a_symbol r) \<in> set (group_keys df)"
    by (auto simp: aggregate_sentiment_def)
  then have "(a_date r, a_symbol r) \<in> (\<lambda>x. (month_end (s_date x), s_symbol x)) ` set df"
    by (simp add: group_keys_def)
  then obtain x :: sentiment_row where x: "x \<in> set df" "a_date r = month_end (s_date x)"
    by auto
  with assms(1) have "valid_date (s_date x)" by blast
  with x(2) show ?thesis by (cases "s_date x") auto
qed

lemma holds_selected_row:
  assumes v: "\<forall>x\<in>set df. valid_date (s_date x)" and r: "r \<in> set (aggregate_sentiment df)"
  shows "holds (get_portfolio_dates (filter_top_stocks n (aggregate_sentiment df)))
           (date_offset_1 (a_date r)) (a_symbol r)
         \<longleftrightarrow> a_rank r < real_of_int (n + 1)"
proof
  assume "a_rank r < real_of_int (n + 1)"
  with r show "holds (get_portfolio_dates (filter_top_stocks n (aggregate_sentiment df)))
           (date_offset_1 (a_date r)) (a_symbol r)"
    unfolding holds_filter_top_stocks by blast
next
  assume "holds (get_portfolio_dates (filter_top_stocks n (aggregate_sentiment df)))
           (date_offset_1 (a_date r)) (a_symbol r)"
  then obtain q where q: "q \<in> set (aggregate_sentiment df)" "a_rank q < real_of_int (n + 1)"
    "date_offset_1 (a_date q) = date_offset_1 (a_date r)" "a_symbol q = a_symbol r"
    unfolding holds_filter_top_stocks by blast
  from aggregate_valid_month [OF v r] obtain y m where
    ym: "a_date r = (y, m, days_in_month y m)" "1 \<le> m" "m \<le> 12" by blast
  from aggregate_valid_month [OF v q(1)] obtain y' m' where
    ym': "a_date q = (y', m', days_in_month y' m')" "1 \<le> m'" "m' \<le> 12" by blast
  from q(3) ym(1) ym'(1) have "first_of_next_month y' m' = first_of_next_month y m" by simp
  then have "y' = y \<and> m' = m"
    using ym(2,3) ym'(2,3) by (intro first_of_next_month_inj) simp_all
  with ym(1) ym'(1) have "a_date q = a_date r" by simp
  with q(1,4) r have "q = r" by (intro aggregate_row_key [of q df r]) simp_all
  with q(2) show "a_rank r < real_of_int (n + 1)" by simp
qed

text \<open>
  C9. Two symbols with the same mean engagement ratio in the same month have the
  same (averaged) rank, and the composition holds both of them from the next
  month's first day or neither. When the tie straddles the cut the number
  selected differs from \<open>top_n\<close>: with \<open>top_n = 1\<close>, two tied leaders (rank 1.5
  each) are both selected, and three tied leaders (rank 2 each) are all left out.
\<close>

theorem tied_symbols_selected_together:
  assumes "\<forall>x\<in>set df. valid_date (s_date x)"
    and "r1 \<in> set (aggregate_sentiment df)" and "r2 \<in> set (aggregate_sentiment df)"
    and "a_date r1 = a_date r2" and "a_engagement_ratio r1 = a_engagement_ratio r2"
  shows "a_rank r1 = a_rank r2
    \<and> (holds (get_portfolio_dates (filter_top_stocks top_n (aggregate_sentiment df)))
          (date_offset_1 (a_date r1)) (a_symbol r1)
       \<longleftrightarrow> holds (get_portfolio_dates (filter_top_stocks top_n (aggregate_sentiment df)))
          (date_offset_1 (a_date r2)) (a_symbol r2))
    \<and> build_composition 1 tied_pair_then_third = [((2021, 2, 1), [''A'', ''B''])]
    \<and> build_composition 1 tied_triple = []"
proof (intro conjI)
  show eq: "a_rank r1 = a_rank r2"
    using aggregate_rank(1) [OF assms(2)] aggregate_rank(1) [OF assms(3)] assms(4,5) by simp
  show "holds (get_portfolio_dates (filter_top_stocks top_n (aggregate_sentiment df)))
          (date_offset_1 (a_date r1)) (a_symbol r1)
       \<longleftrightarrow> holds (get_portfolio_dates (filter_top_stocks top_n (aggregate_sentiment df)))
          (date_offset_1 (a_date r2)) (a_symbol r2)"
    using holds_selected_row [OF assms(1) assms(2)] holds_selected_row [OF assms(1) assms(3)] eq
    by simp
  show "build_composition 1 tied_pair_then_third = [((2021, 2, 1), [''A'', ''B''])]"
    by (simp add: tied_pair_then_third_def sentiment_eval)
  show "build_composition 1 tied_triple = []"
    by (simp add: tied_triple_def sentiment_eval)
qed

theorem tied_symbols_selected_together_witness:
  "\<lparr> a_date = (2021, 1, 31), a_symbol = ''A'', a_engagement_ratio = 1/2, a_rank = 3/2 \<rparr>
      \<in> set (aggregate_sentiment (load_sentiment_data tied_pair_then_third))
   \<and> \<lparr> a_date = (2021, 1, 31), a_symbol = ''B'', a_engagement_ratio = 1/2, a_rank = 3/2 \<rparr>
      \<in> set (aggregate_sentiment (load_sentiment_data tied_pair_then_third))
   \<and> (holds (get_portfolio_dates (filter_top_stocks 1
         (aggregate_sentiment (load_sentiment_data tied_pair_then_third)))) (2021, 2, 1) ''A''
      \<longleftrightarrow> holds (get_portfolio_dates (filter_top_stocks 1
         (aggregate_sentiment (load_sentiment_data tied_pair_then_third)))) (2021, 2, 1) ''B'')"
proof -
  let ?df = "load_sentiment_data tied_pair_then_third"
  let ?A = "\<lparr> a_date = (2021, 1, 31), a_symbol = ''A'', a_engagement_ratio = 1/2, a_rank = 3/2 \<rparr>"
  let ?B = "\<lparr> a_date = (2021, 1, 31), a_symbol = ''B'', a_engagement_ratio = 1/2, a_rank = 3/2 \<rparr>"
  have v: "\<forall>x\<in>set ?df. valid_date (s_date x)"
    by (simp add: tied_pair_then_third_def load_sentiment_data_def days_in_month_def)
  have agg: "aggregate_sentiment ?df =
      [?A, ?B, \<lparr> a_date = (2021, 1, 31), a_symbol = ''C'', a_engagement_ratio = 3/10, a_rank = 3 \<rparr>]"
    by (simp add: tied_pair_then_third_def sentiment_eval)
  have a: "?A \<in> set (aggregate_sentiment ?df)" and b: "?B \<in> set (aggregate_sentiment ?df)"
    by (simp_all add: agg)
  have t: "holds (get_portfolio_dates (filter_top_stocks 1 (aggregate_sentiment ?df)))
          (date_offset_1 (a_date ?A)) (a_symbol ?A)
       \<longleftrightarrow> holds (get_portfolio_dates (filter_top_stocks 1 (aggregate_sentiment ?df)))
          (date_offset_1 (a_date ?B)) (a_symbol ?B)"
    using tied_symbols_selected_together [OF v a b, of 1] by simp
  have d: "date_offset_1 (2021, 1, 31) = (2021, 2, 1)"
    by (simp add: days_in_month_def first_of_next_month_def)
  from t d have "holds (get_portfolio_dates (filter_top_stocks 1 (aggregate_sentiment ?df))) (2021, 2, 1) ''A''
      \<longleftrightarrow> holds (get_portfolio_dates (filter_top_stocks 1 (aggregate_sentiment ?df))) (2021, 2, 1) ''B''"
    by simp
  with a b show ?thesis by blast
qed

section \<open>Returns\<close>

lemmas frame_eval = compute_returns_def adj_close_of_def is_multiindex_def xs_level0_def xs_level1_def
  positions_where_def select_positions_def cell_def log_returns_def dropna_def diff_frame_def
  log_frame_def select_column_def Let_def column_series_def symbol_returns_def fsub_def

text \<open>
  C1, as the code has it. The log difference is taken column by column, and then
  \<open>dropna()\<close> drops every date on which any symbol's difference is undefined: a
  date is in the returns exactly when every symbol has a defined return on it,
  so all symbols share the same dates, and each return kept is that symbol's own
  log difference on that date.
\<close>

theorem returns_keep_common_dates:
  assumes "compute_returns prices = Inr returns"
  shows "\<exists>adj_close. adj_close_of prices = Inr adj_close
     \<and> (\<forall>d r. (d, r) \<in> set (rows returns) \<longleftrightarrow>
           (d, r) \<in> set (rows (diff_frame (log_frame adj_close))) \<and> (\<forall>c\<in>set r. \<not> isna c))
     \<and> (\<forall>d r j. (d, r) \<in> set (rows returns) \<and> j < length r \<longrightarrow>
           (d, r ! j) \<in> set (symbol_returns j adj_close))"
proof -
  from assms obtain adj_close where a: "adj_close_of prices = Inr adj_close"
    and r: "returns = log_returns adj_close"
    by (auto simp: compute_returns_def split: sum.splits)
  have kept: "\<And>d r. (d, r) \<in> set (rows returns) \<longleftrightarrow>
      (d, r) \<in> set (rows (diff_frame (log_frame adj_close))) \<and> (\<forall>c\<in>set r. \<not> isna c)"
    by (auto simp: r log_returns_def dropna_def list_all_iff)
  have own: "\<And>d r j. (d, r) \<in> set (rows returns) \<Longrightarrow> j < length r \<Longrightarrow>
      (d, r ! j) \<in> set (symbol_returns j adj_close)"
  proof -
    fix d r j assume m: "(d, r) \<in> set (rows returns)" and j: "j < length r"
    from m kept have 1: "(d, r) \<in> set (rows (diff_frame (log_frame adj_close)))"
      and 2: "\<forall>c\<in>set r. \<not> isna c" by blast+
    from 2 j have "\<not> isna (r ! j)" by simp
    moreover from 1 j have "(d, r ! j) \<in> set (column_series j (diff_frame (log_frame adj_close)))"
      by (force simp: column_series_def cell_def)
    ultimately show "(d, r ! j) \<in> set (symbol_returns j adj_close)"
      by (simp add: symbol_returns_def)
  qed
  from a kept own show ?thesis by blast
qed

theorem returns_keep_common_dates_witness:
  "compute_returns late_listing =
      Inr \<lparr> columns = [Flat ''A'', Flat ''B''], rows = [((2021, 1, 6), [Fin 0, Fin 0])] \<rparr>
   \<and> (\<exists>adj_close. adj_close_of late_listing = Inr adj_close
        \<and> ((2021, 1, 6), Fin 0) \<in> set (symbol_returns 0 adj_close))"
proof -
  have c: "compute_returns late_listing =
      Inr \<lparr> columns = [Flat ''A'', Flat ''B''], rows = [((2021, 1, 6), [Fin 0, Fin 0])] \<rparr>"
    by (simp add: late_listing_def frame_eval upt_rec)
  from returns_keep_common_dates [OF c] obtain adj_close where
    a: "adj_close_of late_listing = Inr adj_close" and
    o: "\<forall>d r j. (d, r) \<in> set (rows \<lparr> columns = [Flat ''A'', Flat ''B''],
            rows = [((2021, 1, 6), [Fin 0, Fin 0])] \<rparr>) \<and> j < length r \<longrightarrow>
           (d, r ! j) \<in> set (symbol_returns j adj_close)"
    by blast
  from o [rule_format, of "(2021, 1, 6)" "[Fin 0, Fin 0]" 0]
  have "((2021, 1, 6), Fin 0) \<in> set (symbol_returns 0 adj_close)" by simp
  with c a show ?thesis by blast
qed

text \<open>
  C1 as stated fails: B is listed a day after A. Taken alone, A has returns on
  5 and 6 January and B on 6 January; the returns table has 6 January only, for
  both: A's defined return of 5 January is dropped with B's undefined one.
\<close>

theorem ragged_start_counterexample:
  "adj_close_of late_listing =
      Inr \<lparr> columns = [Flat ''A'', Flat ''B''], rows = rows late_listing \<rparr>
   \<and> symbol_returns 0 \<lparr> columns = [Flat ''A'', Flat ''B''], rows = rows late_listing \<rparr>
      = [((2021, 1, 5), Fin 0), ((2021, 1, 6), Fin 0)]
   \<and> symbol_returns 1 \<lparr> columns = [Flat ''A'', Flat ''B''], rows = rows late_listing \<rparr>
      = [((2021, 1, 6), Fin 0)]
   \<and> compute_returns late_listing =
      Inr \<lparr> columns = [Flat ''A'', Flat ''B''], rows = [((2021, 1, 6), [Fin 0, Fin 0])] \<rparr>"
  by (simp add: late_listing_def frame_eval upt_rec)

section \<open>Batched price download\<close>

lemma chunks_Nil: "chunks n [] = []"
  by (simp add: chunks.simps)

lemma chunks_step: "0 < n \<Longrightarrow> xs \<noteq> [] \<Longrightarrow> chunks n xs = take n xs # chunks n (drop n xs)"
  by (subst chunks.simps) simp

lemma chunks_17_15:
  assumes "length xs = 17"
  shows "chunks 15 xs = [take 15 xs, drop 15 xs]"
proof -
  have ne: "xs \<noteq> []" using assms by auto
  have ne2: "drop 15 xs \<noteq> []" using assms by simp
  have "chunks 15 xs = take 15 xs # chunks 15 (drop 15 xs)"
    using ne by (simp add: chunks_step)
  also have "chunks 15 (drop 15 xs) = take 15 (drop 15 xs) # chunks 15 (drop 15 (drop 15 xs))"
    using ne2 by (simp add: chunks_step)
  also have "take 15 (drop 15 xs) = drop 15 xs" using assms by simp
  also have "drop 15 (drop 15 xs) = []" using assms by simp
  finally show ?thesis by (simp add: chunks_Nil)
qed

lemma concat_axis1_single: "concat_axis1 [f] = Inr f"
  by simp

lemma combine_results_pair:
  "combine_results [r1, r2] =
     (if \<not> is_empty r1 \<and> \<not> is_empty r2 then concat_axis1 [r1, r2]
      else if \<not> is_empty r1 then Inr r1
      else if \<not> is_empty r2 then Inr r2
      else Inr empty_frame)"
  by (simp add: combine_results_def Let_def)

text \<open>
  C4, as the code has it. Seventeen symbols, none on the exclusion list, and
  batch size 15 give exactly two batches, of 15 and of 2 symbols. A batch that
  fails entirely (an exception, or an empty response) is an empty table, which
  is left out of the merge; the call does not fail, and its result is the table
  of the other batch: the 15 symbols of the first batch when the second fails,
  the 2 symbols of the second when the first fails.
\<close>

theorem one_failed_batch_is_omitted:
  assumes "length stocks = 17" and "''MRO'' \<notin> set stocks" and "''ATVI'' \<notin> set stocks"
    and "batch_size self = 15"
  shows "stock_batches 15 stocks = Inr [take 15 stocks, drop 15 stocks]
    \<and> length (take 15 stocks) = 15 \<and> length (drop 15 stocks) = 2
    \<and> (\<not> is_empty (download_stock_batch yf (take 15 stocks) from_day to_day False)
        \<and> is_empty (download_stock_batch yf (drop 15 stocks) from_day to_day False)
       \<longrightarrow> download_stock_data_parallel yf self stocks from_day to_day
             = Inr (download_stock_batch yf (take 15 stocks) from_day to_day False))
    \<and> (is_empty (download_stock_batch yf (take 15 stocks) from_day to_day False)
        \<and> \<not> is_empty (download_stock_batch yf (drop 15 stocks) from_day to_day False)
       \<longrightarrow> download_stock_data_parallel yf self stocks from_day to_day
             = Inr (download_stock_batch yf (drop 15 stocks) from_day to_day False))"
proof -
  have f: "filter (\<lambda>s. s \<notin> set excluded) stocks = stocks"
    using assms(2,3) by (auto simp: excluded_def filter_id_conv)
  have b: "stock_batches 15 stocks = Inr [take 15 stocks, drop 15 stocks]"
    using assms(1) by (simp add: stock_batches_def f slices_def chunks_17_15)
  show ?thesis
    using b assms(1,4)
    by (simp add: download_stock_data_parallel_def combine_results_pair)
qed

theorem one_failed_batch_is_omitted_witness:
  "length seventeen_symbols = 17
   \<and> download_stock_data_parallel second_batch_down (ParallelPortfolioEngine_init (Some 15))
        seventeen_symbols ''2021-01-01'' ''2023-03-01'' = Inr first_batch_table
   \<and> map level1 (columns first_batch_table) = take 15 seventeen_symbols"
proof -
  have l: "length seventeen_symbols = 17"
    by (simp add: seventeen_symbols_def)
  have m: "''MRO'' \<notin> set seventeen_symbols" and a: "''ATVI'' \<notin> set seventeen_symbols"
    by (simp_all add: seventeen_symbols_def)
  have b: "batch_size (ParallelPortfolioEngine_init (Some 15)) = 15"
    by (simp add: ParallelPortfolioEngine_init_def)
  have d: "drop 15 seventeen_symbols \<noteq> take 15 seventeen_symbols"
    by (simp add: seventeen_symbols_def)
  have r1: "download_stock_batch second_batch_down (take 15 seventeen_symbols)
       ''2021-01-01'' ''2023-03-01'' False = first_batch_table"
    by (simp add: download_stock_batch_def second_batch_down_def)
  have r2: "download_stock_batch second_batch_down (drop 15 seventeen_symbols)
       ''2021-01-01'' ''2023-03-01'' False = empty_frame"
    using d by (simp add: download_stock_batch_def second_batch_down_def)
  have e1: "\<not> is_empty first_batch_table"
    by (simp add: is_empty_def first_batch_table_def seventeen_symbols_def)
  have e2: "is_empty empty_frame"
    by (simp add: is_empty_def empty_frame_def)
  have "download_stock_data_parallel second_batch_down (ParallelPortfolioEngine_init (Some 15))
        seventeen_symbols ''2021-01-01'' ''2023-03-01'' = Inr first_batch_table"
    using one_failed_batch_is_omitted [OF l m a b, of second_batch_down "''2021-01-01''" "''2023-03-01''"]
      r1 r2 e1 e2 by simp
  moreover have "map level1 (columns first_batch_table) = take 15 seventeen_symbols"
    by (simp add: first_batch_table_def comp_def)
  ultimately show ?thesis using l by blast
qed

text \<open>
  C4 as stated fails: of seventeen symbols that include MRO and ATVI, fifteen
  are left after the exclusion, and they make one batch, not two.
\<close>

theorem excluded_symbols_counterexample:
  "length seventeen_with_excluded = 17
   \<and> stock_batches 15 seventeen_with_excluded = Inr [take 15 seventeen_with_excluded]"
  by (simp add: stock_batches_def slices_def excluded_def seventeen_with_excluded_def
      chunks_step chunks_Nil)

section \<open>A run of the analysis\<close>

text \<open>
  In \<open>quiet_world\<close> the analysis of the default request succeeds, step by step,
  with the response \<open>quiet_result\<close>.
\<close>

lemmas char_eval = char_of_def bit_iff_odd_drop_bit drop_bit_eq_div lower_def lower_char_def

lemma comp5: "build_composition 5 tied_pair_then_third = [((2021, 2, 1), [''A'', ''B'', ''C''])]"
  by (simp add: tied_pair_then_third_def sentiment_eval)

lemma sent: "process_sentiment_data_sync quiet_world u = Inr [((2021, 2, 1), [''A'', ''B'', ''C''])]"
  by (simp add: process_sentiment_data_sync_def quiet_world_def bind_exn_def comp5)

lemma batches3: "stock_batches 15 [''A'', ''B'', ''C''] = Inr [[''A'', ''B'', ''C'']]"
  by (simp add: stock_batches_def slices_def excluded_def chunks_step chunks_Nil)

lemma dl: "download_stock_data_parallel flat_prices (ParallelPortfolioEngine_init (Some 15))
    [''A'', ''B'', ''C''] s e = Inr abc_prices"
  by (simp add: download_stock_data_parallel_def ParallelPortfolioEngine_init_def batches3
      combine_results_def download_stock_batch_def flat_prices_def is_empty_def abc_prices_def)

lemma ret: "calculate_returns_batch abc_prices =
   \<lparr> columns = [Flat ''A'', Flat ''B'', Flat ''C''],
     rows = [((2021, 2, 2), [Fin 0, Fin 0, Fin 0]), ((2021, 2, 3), [Fin 0, Fin 0, Fin 0])] \<rparr>"
  by (simp add: calculate_returns_batch_def abc_prices_def frame_eval upt_rec)

lemma perf: "calculate_portfolio_performance abc_prices [((2021, 2, 1), [''A'', ''B'', ''C''])] =
   Inr \<lparr> columns = [Flat ''portfolio_return''],
         rows = [((2021, 2, 2), [Fin 0]), ((2021, 2, 3), [Fin 0])] \<rparr>"
  by (simp add: calculate_portfolio_performance_def ret chunks_step chunks_Nil Let_def
      window_mean_def positions_where_def cell_def row_mean_def dropna_series_def
      fsum_def days_in_month_def is_leap_def upt_rec)

lemma bench: "get_benchmark_data flat_prices ''QQQ'' s e =
   Inr \<lparr> columns = [Flat ''qqq_return''],
         rows = [((2021, 2, 1), [NaN]), ((2021, 2, 2), [Fin 0]), ((2021, 2, 3), [Fin 0])] \<rparr>"
  by (simp add: get_benchmark_data_def flat_prices_def bind_exn_def is_multiindex_def
      xs_level0_def positions_where_def select_positions_def cell_def diff_frame_def
      log_frame_def fsub_def char_eval Let_def)

lemma mrg: "merge_left \<lparr> columns = [Flat ''portfolio_return''],
         rows = [((2021, 2, 2), [Fin 0]), ((2021, 2, 3), [Fin 0])] \<rparr>
      \<lparr> columns = [Flat ''qqq_return''],
         rows = [((2021, 2, 1), [NaN]), ((2021, 2, 2), [Fin 0]), ((2021, 2, 3), [Fin 0])] \<rparr>
   = \<lparr> columns = [Flat ''portfolio_return'', Flat ''qqq_return''],
       rows = [((2021, 2, 2), [Fin 0, Fin 0]), ((2021, 2, 3), [Fin 0, Fin 0])] \<rparr>"
  by (simp add: merge_left_def)

lemma library_at_zero:
  "np_log1p (binary64 rounded_library) (Fin 0) = Fin 0"
  "np_exp (binary64 rounded_library) (Fin 0) = Fin 1"
  by (simp_all add: binary64_def rounded_library_def flog1p_def rnd64_zero rnd64_1)

lemma mean_zeros: "mean (binary64 rounded_library) [Fin 0, Fin 0] = Fin 0"
  by (simp add: mean_def count_def mask0_def pairwise_sum_short radd_def rdiv_def round_to_def
      rnd_binary64 rnd64_zero)

lemma metrics0:
  "total_return (binary64 rounded_library) [Fin 0, Fin 0] = Fin 0"
  "volatility (binary64 rounded_library) [Fin 0, Fin 0] = Fin 0"
  "sharpe_ratio (binary64 rounded_library) [Fin 0, Fin 0] = Fin 0"
  "cumulative_returns (binary64 rounded_library) [Fin 0, Fin 0] = [Fin 0, Fin 0]"
proof -
  have z: "rnd (binary64 rounded_library) 0 = Fin 0" by (simp add: rnd_binary64 rnd64_zero)
  show c: "cumulative_returns (binary64 rounded_library) [Fin 0, Fin 0] = [Fin 0, Fin 0]"
    by (simp add: cumulative_returns_def cumsum_def mask0_def library_at_zero radd_def rsub_def
        fsub_def round_to_def rnd_binary64 rnd64_zero)
  then show "total_return (binary64 rounded_library) [Fin 0, Fin 0] = Fin 0"
    by (simp add: total_return_def)
  have "std (binary64 rounded_library) [Fin 0, Fin 0] = Fin 0"
    using z by (rule std_constant_series) (simp_all add: mean_zeros)
  then show "volatility (binary64 rounded_library) [Fin 0, Fin 0] = Fin 0"
    by (simp add: volatility_def sqrt_252_rounded rmul_def round_to_def rnd_binary64 rnd64_zero)
  then show "sharpe_ratio (binary64 rounded_library) [Fin 0, Fin 0] = Fin 0"
    by (simp add: sharpe_ratio_def)
qed

lemma res: "compute_result quiet_world default_request [((2021, 2, 1), [''A'', ''B'', ''C''])]
     [''A'', ''B'', ''C'']
     \<lparr> columns = [Flat ''portfolio_return'', Flat ''qqq_return''],
       rows = [((2021, 2, 2), [Fin 0, Fin 0]), ((2021, 2, 3), [Fin 0, Fin 0])] \<rparr>
   = Inr quiet_result"
  by (simp add: compute_result_def bind_exn_def column_dropna_def positions_where_def
      column_series_def cell_def default_request_def char_eval metrics0 rsub_def fsub_def
      round_to_def rnd_binary64 rnd64_zero Let_def quiet_result_def quiet_world_def upt_rec)

lemma ne: "\<not> is_empty abc_prices"
  by (simp add: is_empty_def abc_prices_def)

lemma compute_analysis_success:
  assumes "process_sentiment_data_sync w (sentiment_url request) = Inr portfolio_dates"
    and "portfolio_dates \<noteq> []"
    and "list_of_set w (concat (map snd portfolio_dates)) = unique_stocks"
    and "download_stock_data_parallel (yf_download w) eng unique_stocks
           (start_date request) (end_date request) = Inr prices_df"
    and "\<not> is_empty prices_df"
    and "calculate_portfolio_performance prices_df portfolio_dates = Inr portfolio_performance"
    and "get_benchmark_data (yf_download w) (benchmark_ticker request)
           (start_date request) (end_date request) = Inr benchmark_data"
    and "compute_result w request portfolio_dates unique_stocks
           (merge_left portfolio_performance benchmark_data) = Inr payload"
  shows "compute_analysis w eng request = Inr payload"
  using assms by (simp add: compute_analysis_def bind_exn_def Let_def)

lemma quiet_analysis:
  "compute_analysis quiet_world (ParallelPortfolioEngine_init (Some 15)) default_request
     = Inr quiet_result"
proof (rule compute_analysis_success)
  show "process_sentiment_data_sync quiet_world (sentiment_url default_request)
      = Inr [((2021, 2, 1), [''A'', ''B'', ''C''])]"
    by (rule sent)
  show "[((2021, 2, 1), [''A'', ''B'', ''C''])] \<noteq> ([] :: composition)"
    by simp
  show "list_of_set quiet_world (concat (map snd [((2021, 2, 1), [''A'', ''B'', ''C''])]))
      = [''A'', ''B'', ''C'']"
    by (simp add: quiet_world_def)
  show "download_stock_data_parallel (yf_download quiet_world)
        (ParallelPortfolioEngine_init (Some 15)) [''A'', ''B'', ''C'']
        (start_date default_request) (end_date default_request) = Inr abc_prices"
    using dl by (simp add: quiet_world_def)
  show "\<not> is_empty abc_prices"
    by (rule ne)
  show "calculate_portfolio_performance abc_prices [((2021, 2, 1), [''A'', ''B'', ''C''])]
      = Inr \<lparr> columns = [Flat ''portfolio_return''],
              rows = [((2021, 2, 2), [Fin 0]), ((2021, 2, 3), [Fin 0])] \<rparr>"
    by (rule perf)
  show "get_benchmark_data (yf_download quiet_world) (benchmark_ticker default_request)
        (start_date default_request) (end_date default_request)
      = Inr \<lparr> columns = [Flat ''qqq_return''],
              rows = [((2021, 2, 1), [NaN]), ((2021, 2, 2), [Fin 0]), ((2021, 2, 3), [Fin 0])] \<rparr>"
    using bench [of "start_date default_request" "end_date default_request"]
    by (simp add: quiet_world_def default_request_def)
  show "compute_result quiet_world default_request [((2021, 2, 1), [''A'', ''B'', ''C''])]
        [''A'', ''B'', ''C'']
        (merge_left \<lparr> columns = [Flat ''portfolio_return''],
              rows = [((2021, 2, 2), [Fin 0]), ((2021, 2, 3), [Fin 0])] \<rparr>
           \<lparr> columns = [Flat ''qqq_return''],
              rows = [((2021, 2, 1), [NaN]), ((2021, 2, 2), [Fin 0]), ((2021, 2, 3), [Fin 0])] \<rparr>)
      = Inr quiet_result"
    by (simp only: mrg res)
qed

lemma defaults_left_out_request: "PortfolioRequest_of defaults_left_out = Inr default_request"
  by (simp add: PortfolioRequest_of_def defaults_left_out_def str_field_def int_field_def
      member_def bind_exn_def default_request_def)

lemma defaults_spelled_out_request: "PortfolioRequest_of defaults_spelled_out = Inr default_request"
  by (simp add: PortfolioRequest_of_def defaults_spelled_out_def str_field_def int_field_def
      member_def bind_exn_def default_request_def)

section \<open>The result cache\<close>

text \<open>The three ways through \<open>analyze_portfolio\<close>.\<close>

lemma analyze_portfolio_hit:
  "cache self (cache_key rt request) = Some payload \<Longrightarrow>
     analyze_portfolio rt w self request = (Inr payload, self)"
  by (simp add: analyze_portfolio_def)

lemma analyze_portfolio_raise:
  "cache self (cache_key rt request) = None \<Longrightarrow>
   compute_analysis w (engine self) request = Inl x \<Longrightarrow>
     analyze_portfolio rt w self request
       = (Inl (HTTPException 500 (''Error interno: '' @ str_exn x)), self)"
  by (simp add: analyze_portfolio_def)

lemma analyze_portfolio_store:
  "cache self (cache_key rt request) = None \<Longrightarrow>
   compute_analysis w (engine self) request = Inr payload \<Longrightarrow>
     analyze_portfolio rt w self request
       = (Inr payload, self\<lparr> cache := (cache self)(cache_key rt request \<mapsto> payload) \<rparr>)"
  by (simp add: analyze_portfolio_def)

lemma analyze_portfolio_error_keeps_cache:
  assumes "analyze_portfolio rt w self request = (Inl e, self')"
  shows "self' = self"
proof (cases "cache self (cache_key rt request)")
  case (Some cached)
  from analyze_portfolio_hit [OF Some, of w] assms show ?thesis by simp
next
  case None
  show ?thesis
  proof (cases "compute_analysis w (engine self) request")
    case (Inl x)
    from analyze_portfolio_raise [OF None Inl] assms show ?thesis by simp
  next
    case (Inr computed)
    from analyze_portfolio_store [OF None Inr] assms show ?thesis by simp
  qed
qed

lemma analyze_portfolio_success:
  assumes "analyze_portfolio rt w self request = (Inr payload, self')"
  shows "(cache self (cache_key rt request) = Some payload \<and> self' = self)
       \<or> (cache self (cache_key rt request) = None
           \<and> compute_analysis w (engine self) request = Inr payload
           \<and> self' = self\<lparr> cache := (cache self)(cache_key rt request \<mapsto> payload) \<rparr>)"
proof (cases "cache self (cache_key rt request)")
  case (Some cached)
  from analyze_portfolio_hit [OF Some, of w] assms Some show ?thesis by simp
next
  case None
  show ?thesis
  proof (cases "compute_analysis w (engine self) request")
    case (Inl x)
    from analyze_portfolio_raise [OF None Inl] assms show ?thesis by simp
  next
    case (Inr computed)
    from analyze_portfolio_store [OF None Inr] assms None Inr show ?thesis by simp
  qed
qed

lemma analyze_portfolio_stored:
  assumes "analyze_portfolio rt w self request = (Inr payload, self')"
  shows "cache self' (cache_key rt request) = Some payload"
  using analyze_portfolio_success [OF assms] by auto

lemma quiet_run:
  "analyze_portfolio plain_runtime quiet_world PortfolioAPI_init default_request
     = (Inr quiet_result,
        PortfolioAPI_init\<lparr> cache := (cache PortfolioAPI_init)
          (cache_key plain_runtime default_request \<mapsto> quiet_result) \<rparr>)"
proof (rule analyze_portfolio_store)
  show "cache PortfolioAPI_init (cache_key plain_runtime default_request) = None"
    by (simp add: PortfolioAPI_init_def)
  show "compute_analysis quiet_world (engine PortfolioAPI_init) default_request = Inr quiet_result"
    using quiet_analysis by (simp add: PortfolioAPI_init_def)
qed

lemma member_order:
  assumes "distinct (map fst b)" and "distinct (map fst b')" and "set b = set b'"
  shows "member b = member b'"
proof -
  have "map_of (rev b) = map_of (rev b')"
    using assms by (subst map_of_inject_set) (simp_all add: rev_map [symmetric])
  then show ?thesis by (simp add: member_def fun_eq_iff)
qed

lemma PortfolioRequest_of_member:
  "member b = member b' \<Longrightarrow> PortfolioRequest_of b = PortfolioRequest_of b'"
  by (simp add: PortfolioRequest_of_def str_field_def int_field_def)

text \<open>
  C7. Two request bodies whose normalized requests are identical (the members
  looked up by name, whatever their order, and every absent member resolved to
  its default) give one and the same request, hence one and the same cache
  key. If the first is answered with a payload, then that payload is stored
  under the key, and the second is answered with the same payload from the
  cache, whatever the state of the sources by then, and the cache is unchanged.
\<close>

theorem identical_requests_served_from_cache:
  assumes "PortfolioRequest_of b1 = Inr request" and "PortfolioRequest_of b2 = Inr request"
    and "post_portfolio_analyze rt w1 self b1 = (Inr payload, self')"
  shows "cache self' (cache_key rt request) = Some payload
    \<and> post_portfolio_analyze rt w2 self' b2 = (Inr payload, self')"
proof -
  from assms(1,3) have a: "analyze_portfolio rt w1 self request = (Inr payload, self')"
    by (simp add: post_portfolio_analyze_def)
  then have s: "cache self' (cache_key rt request) = Some payload"
    by (rule analyze_portfolio_stored)
  then have "analyze_portfolio rt w2 self' request = (Inr payload, self')"
    by (rule analyze_portfolio_hit)
  with assms(2) s show ?thesis
    by (simp add: post_portfolio_analyze_def)
qed

text \<open>
  Two different bodies of the default request: the first is computed in
  \<open>quiet_world\<close>, the second is served the same response although no source can
  be reached.
\<close>

theorem identical_requests_served_from_cache_witness:
  "PortfolioRequest_of defaults_left_out = Inr default_request
   \<and> PortfolioRequest_of defaults_spelled_out = Inr default_request
   \<and> defaults_left_out \<noteq> defaults_spelled_out
   \<and> post_portfolio_analyze plain_runtime quiet_world PortfolioAPI_init defaults_left_out
       = (Inr quiet_result,
          PortfolioAPI_init\<lparr> cache := (cache PortfolioAPI_init)
            (cache_key plain_runtime default_request \<mapsto> quiet_result) \<rparr>)
   \<and> post_portfolio_analyze plain_runtime offline_world
         (PortfolioAPI_init\<lparr> cache := (cache PortfolioAPI_init)
            (cache_key plain_runtime default_request \<mapsto> quiet_result) \<rparr>) defaults_spelled_out
       = (Inr quiet_result,
          PortfolioAPI_init\<lparr> cache := (cache PortfolioAPI_init)
            (cache_key plain_runtime default_request \<mapsto> quiet_result) \<rparr>)"
proof -
  have h3: "post_portfolio_analyze plain_runtime quiet_world PortfolioAPI_init defaults_left_out
       = (Inr quiet_result,
          PortfolioAPI_init\<lparr> cache := (cache PortfolioAPI_init)
            (cache_key plain_runtime default_request \<mapsto> quiet_result) \<rparr>)"
    using quiet_run by (simp add: post_portfolio_analyze_def defaults_left_out_request)
  have d: "defaults_left_out \<noteq> defaults_spelled_out"
    by (simp add: defaults_left_out_def defaults_spelled_out_def)
  from identical_requests_served_from_cache
         [OF defaults_left_out_request defaults_spelled_out_request h3, of offline_world]
  have "post_portfolio_analyze plain_runtime offline_world
         (PortfolioAPI_init\<lparr> cache := (cache PortfolioAPI_init)
            (cache_key plain_runtime default_request \<mapsto> quiet_result) \<rparr>) defaults_spelled_out
       = (Inr quiet_result,
          PortfolioAPI_init\<lparr> cache := (cache PortfolioAPI_init)
            (cache_key plain_runtime default_request \<mapsto> quiet_result) \<rparr>)"
    by (rule conjunct2)
  with defaults_left_out_request defaults_spelled_out_request d h3 show ?thesis
    by (intro conjI)
qed

text \<open>The same three ways through the handler of api\_simple.py, and the steps that fail.\<close>

lemma analyze_portfolio_simple_hit:
  "c (cache_key rt request) = Some payload \<Longrightarrow>
     analyze_portfolio_simple rt w c request = (Inr payload, c)"
  by (simp add: analyze_portfolio_simple_def)

lemma analyze_portfolio_simple_raise:
  "c (cache_key rt request) = None \<Longrightarrow> compute_analysis_simple w request = Inl x \<Longrightarrow>
     analyze_portfolio_simple rt w c request
       = (Inl (HTTPException 500 (''Error interno: '' @ str_exn x)), c)"
  by (simp add: analyze_portfolio_simple_def)

lemma analyze_portfolio_simple_store:
  "c (cache_key rt request) = None \<Longrightarrow> compute_analysis_simple w request = Inr payload \<Longrightarrow>
     analyze_portfolio_simple rt w c request = (Inr payload, c(cache_key rt request \<mapsto> payload))"
  by (simp add: analyze_portfolio_simple_def)

lemma analyze_portfolio_simple_error_keeps_cache:
  assumes "analyze_portfolio_simple rt w c request = (Inl e, c')"
  shows "c' = c"
proof (cases "c (cache_key rt request)")
  case (Some cached)
  from analyze_portfolio_simple_hit [of c rt request cached w] Some assms show ?thesis by simp
next
  case None
  show ?thesis
  proof (cases "compute_analysis_simple w request")
    case (Inl x)
    from analyze_portfolio_simple_raise [of c rt request w x] None Inl assms show ?thesis by simp
  next
    case (Inr computed)
    from analyze_portfolio_simple_store [of c rt request w computed] None Inr assms show ?thesis by simp
  qed
qed

lemma analyze_portfolio_simple_success:
  assumes "analyze_portfolio_simple rt w c request = (Inr payload, c')"
  shows "(c (cache_key rt request) = Some payload \<and> c' = c)
       \<or> (c (cache_key rt request) = None \<and> compute_analysis_simple w request = Inr payload
           \<and> c' = c(cache_key rt request \<mapsto> payload))"
proof (cases "c (cache_key rt request)")
  case (Some cached)
  from analyze_portfolio_simple_hit [of c rt request cached w] Some assms show ?thesis by simp
next
  case None
  show ?thesis
  proof (cases "compute_analysis_simple w request")
    case (Inl x)
    from analyze_portfolio_simple_raise [of c rt request w x] None Inl assms show ?thesis by simp
  next
    case (Inr computed)
    from analyze_portfolio_simple_store [of c rt request w computed] None Inr assms show ?thesis by simp
  qed
qed

lemma analyze_portfolio_simple_stored:
  assumes "analyze_portfolio_simple rt w c request = (Inr payload, c')"
  shows "c' (cache_key rt request) = Some payload"
  using analyze_portfolio_simple_success [OF assms] by auto

lemma sentiment_failure:
  "read_csv w (sentiment_url request) = Inl x \<Longrightarrow> compute_analysis w eng request = Inl x"
  by (simp add: compute_analysis_def process_sentiment_data_sync_def bind_exn_def)

lemma sentiment_failure_simple:
  "read_csv w (sentiment_url request) = Inl x \<Longrightarrow> compute_analysis_simple w request = Inl x"
  by (simp add: compute_analysis_simple_def bind_exn_def)

lemma combine_results_all_empty:
  assumes "\<forall>b. is_empty (f b)"
  shows "combine_results (map f batches) = Inr empty_frame"
proof -
  have "filter (\<lambda>df. \<not> is_empty df) (map f batches) = []"
    using assms by (simp add: filter_empty_conv)
  then show ?thesis by (simp add: combine_results_def)
qed

lemma download_all_failed:
  assumes "\<forall>tickers. is_empty (download_stock_batch yf tickers s e False)"
  shows "download_stock_data_parallel yf eng stocks s e = Inr empty_frame
       \<or> (\<exists>x. download_stock_data_parallel yf eng stocks s e = Inl x)"
proof (cases "stock_batches (batch_size eng) stocks")
  case (Inl x)
  then show ?thesis by (simp add: download_stock_data_parallel_def)
next
  case (Inr batches)
  then show ?thesis
    using combine_results_all_empty [of "\<lambda>batch. download_stock_batch yf batch s e False", OF assms]
    by (simp add: download_stock_data_parallel_def)
qed

lemma price_failure:
  assumes "\<forall>tickers. is_empty (download_stock_batch (yf_download w) tickers
             (start_date request) (end_date request) False)"
  shows "\<exists>x. compute_analysis w eng request = Inl x"
proof (cases "process_sentiment_data_sync w (sentiment_url request)")
  case (Inl x)
  then show ?thesis by (simp add: compute_analysis_def bind_exn_def)
next
  case (Inr portfolio_dates)
  show ?thesis
  proof (cases "portfolio_dates = []")
    case True
    with Inr show ?thesis by (simp add: compute_analysis_def bind_exn_def)
  next
    case False
    have e: "is_empty empty_frame" by (simp add: is_empty_def empty_frame_def)
    from download_all_failed [OF assms, of eng "list_of_set w (concat (map snd portfolio_dates))"]
    show ?thesis
      using Inr False e by (auto simp: compute_analysis_def bind_exn_def Let_def)
  qed
qed

lemma price_failure_simple:
  assumes "\<forall>tickers. is_empty (download_stock_batch_simple (yf_download w) tickers
             (start_date request) (end_date request))"
  shows "\<exists>x. compute_analysis_simple w request = Inl x"
proof (cases "read_csv w (sentiment_url request)")
  case (Inl x)
  then show ?thesis by (simp add: compute_analysis_simple_def bind_exn_def)
next
  case (Inr csv)
  have e: "is_empty empty_frame" by (simp add: is_empty_def empty_frame_def)
  have c: "combine_results (map (\<lambda>batch. download_stock_batch_simple (yf_download w) batch
              (start_date request) (end_date request)) batches) = Inr empty_frame" for batches
    using assms by (rule combine_results_all_empty)
  show ?thesis
    using Inr e c
    by (auto simp: compute_analysis_simple_def parallel_stock_download_simple_def bind_exn_def
        Let_def split: sum.splits)
qed

lemma benchmark_failure:
  assumes "get_benchmark_data (yf_download w) (benchmark_ticker request)
             (start_date request) (end_date request) = Inl x"
  shows "\<exists>y. compute_analysis w eng request = Inl y"
  using assms
  by (auto simp: compute_analysis_def bind_exn_def Let_def split: sum.splits)

lemma benchmark_failure_simple:
  assumes "get_benchmark_data (yf_download w) (benchmark_ticker request)
             (start_date request) (end_date request) = Inl x"
  shows "\<exists>y. compute_analysis_simple w request = Inl y"
  using assms
  by (auto simp: compute_analysis_simple_def bind_exn_def Let_def split: sum.splits)

text \<open>
  C10. In api.py and in api\_simple.py alike: a call that raises leaves the
  cache as it was; a call that returns a payload either found it in the cache,
  which it leaves as it was, or computed it with every step succeeding and
  then stored it under the key of the request, changing nothing else. On a
  cache miss, a computation that raises makes the call raise (an HTTP 500 with
  the message of the exception); and the computation raises when the sentiment
  source raises, when every price batch comes back empty, and when the
  benchmark download raises.
\<close>

theorem cache_written_only_after_success:
  "(analyze_portfolio rt w self request = (Inl e, self') \<longrightarrow> self' = self)
 \<and> (analyze_portfolio rt w self request = (Inr payload, self') \<longrightarrow>
       (cache self (cache_key rt request) = Some payload \<and> self' = self)
     \<or> (cache self (cache_key rt request) = None
         \<and> compute_analysis w (engine self) request = Inr payload
         \<and> self' = self\<lparr> cache := (cache self)(cache_key rt request \<mapsto> payload) \<rparr>))
 \<and> (cache self (cache_key rt request) = None
       \<and> compute_analysis w (engine self) request = Inl x \<longrightarrow>
     analyze_portfolio rt w self request
       = (Inl (HTTPException 500 (''Error interno: '' @ str_exn x)), self))
 \<and> (read_csv w (sentiment_url request) = Inl x \<longrightarrow>
       compute_analysis w (engine self) request = Inl x)
 \<and> ((\<forall>tickers. is_empty (download_stock_batch (yf_download w) tickers
         (start_date request) (end_date request) False)) \<longrightarrow>
     (\<exists>y. compute_analysis w (engine self) request = Inl y))
 \<and> (get_benchmark_data (yf_download w) (benchmark_ticker request)
        (start_date request) (end_date request) = Inl x \<longrightarrow>
     (\<exists>y. compute_analysis w (engine self) request = Inl y))
 \<and> (analyze_portfolio_simple rt w c request = (Inl e, c') \<longrightarrow> c' = c)
 \<and> (analyze_portfolio_simple rt w c request = (Inr payload, c') \<longrightarrow>
       (c (cache_key rt request) = Some payload \<and> c' = c)
     \<or> (c (cache_key rt request) = None
         \<and> compute_analysis_simple w request = Inr payload
         \<and> c' = c(cache_key rt request \<mapsto> payload)))
 \<and> (c (cache_key rt request) = None \<and> compute_analysis_simple w request = Inl x \<longrightarrow>
     analyze_portfolio_simple rt w c request
       = (Inl (HTTPException 500 (''Error interno: '' @ str_exn x)), c))
 \<and> (read_csv w (sentiment_url request) = Inl x \<longrightarrow> compute_analysis_simple w request = Inl x)
 \<and> ((\<forall>tickers. is_empty (download_stock_batch_simple (yf_download w) tickers
         (start_date request) (end_date request))) \<longrightarrow>
     (\<exists>y. compute_analysis_simple w request = Inl y))
 \<and> (get_benchmark_data (yf_download w) (benchmark_ticker request)
        (start_date request) (end_date request) = Inl x \<longrightarrow>
     (\<exists>y. compute_analysis_simple w request = Inl y))"
proof (intro conjI impI)
  assume "analyze_portfolio rt w self request = (Inl e, self')"
  then show "self' = self" by (rule analyze_portfolio_error_keeps_cache)
next
  assume "analyze_portfolio rt w self request = (Inr payload, self')"
  then show "(cache self (cache_key rt request) = Some payload \<and> self' = self)
     \<or> (cache self (cache_key rt request) = None
         \<and> compute_analysis w (engine self) request = Inr payload
         \<and> self' = self\<lparr> cache := (cache self)(cache_key rt request \<mapsto> payload) \<rparr>)"
    by (rule analyze_portfolio_success)
next
  assume "cache self (cache_key rt request) = None
       \<and> compute_analysis w (engine self) request = Inl x"
  then show "analyze_portfolio rt w self request
       = (Inl (HTTPException 500 (''Error interno: '' @ str_exn x)), self)"
    by (simp add: analyze_portfolio_raise)
next
  assume "read_csv w (sentiment_url request) = Inl x"
  then show "compute_analysis w (engine self) request = Inl x" by (rule sentiment_failure)
next
  assume "\<forall>tickers. is_empty (download_stock_batch (yf_download w) tickers
         (start_date request) (end_date request) False)"
  then show "\<exists>y. compute_analysis w (engine self) request = Inl y" by (rule price_failure)
next
  assume "get_benchmark_data (yf_download w) (benchmark_ticker request)
        (start_date request) (end_date request) = Inl x"
  then show "\<exists>y. compute_analysis w (engine self) request = Inl y" by (rule benchmark_failure)
next
  assume "analyze_portfolio_simple rt w c request = (Inl e, c')"
  then show "c' = c" by (rule analyze_portfolio_simple_error_keeps_cache)
next
  assume "analyze_portfolio_simple rt w c request = (Inr payload, c')"
  then show "(c (cache_key rt request) = Some payload \<and> c' = c)
     \<or> (c (cache_key rt request) = None
         \<and> compute_analysis_simple w request = Inr payload
         \<and> c' = c(cache_key rt request \<mapsto> payload))"
    by (rule analyze_portfolio_simple_success)
next
  assume "c (cache_key rt request) = None \<and> compute_analysis_simple w request = Inl x"
  then show "analyze_portfolio_simple rt w c request
       = (Inl (HTTPException 500 (''Error interno: '' @ str_exn x)), c)"
    by (simp add: analyze_portfolio_simple_raise)
next
  assume "read_csv w (sentiment_url request) = Inl x"
  then show "compute_analysis_simple w request = Inl x" by (rule sentiment_failure_simple)
next
  assume "\<forall>tickers. is_empty (download_stock_batch_simple (yf_download w) tickers
         (start_date request) (end_date request))"
  then show "\<exists>y. compute_analysis_simple w request = Inl y" by (rule price_failure_simple)
next
  assume "get_benchmark_data (yf_download w) (benchmark_ticker request)
        (start_date request) (end_date request) = Inl x"
  then show "\<exists>y. compute_analysis_simple w request = Inl y"
    by (rule benchmark_failure_simple)
qed

theorem cache_written_only_after_success_witness:
  "read_csv offline_world (sentiment_url default_request) = Inl (SourceError ''unreachable'')
   \<and> cache PortfolioAPI_init (cache_key plain_runtime default_request) = None
   \<and> analyze_portfolio plain_runtime offline_world PortfolioAPI_init default_request
       = (Inl (HTTPException 500 ''Error interno: unreachable''), PortfolioAPI_init)
   \<and> analyze_portfolio_simple plain_runtime offline_world Map.empty default_request
       = (Inl (HTTPException 500 ''Error interno: unreachable''), Map.empty)
   \<and> analyze_portfolio plain_runtime quiet_world PortfolioAPI_init default_request
       = (Inr quiet_result,
          PortfolioAPI_init\<lparr> cache := (cache PortfolioAPI_init)
            (cache_key plain_runtime default_request \<mapsto> quiet_result) \<rparr>)
   \<and> compute_analysis quiet_world (engine PortfolioAPI_init) default_request = Inr quiet_result"
proof -
  note offline = cache_written_only_after_success
    [where rt = plain_runtime and w = offline_world and self = PortfolioAPI_init
       and request = default_request and x = "SourceError ''unreachable''"
       and c = Map.empty]
  note quiet = cache_written_only_after_success
    [where rt = plain_runtime and w = quiet_world and self = PortfolioAPI_init
       and request = default_request and payload = quiet_result
       and self' = "PortfolioAPI_init\<lparr> cache := (cache PortfolioAPI_init)
            (cache_key plain_runtime default_request \<mapsto> quiet_result) \<rparr>"]
  have r: "read_csv offline_world (sentiment_url default_request) = Inl (SourceError ''unreachable'')"
    by (simp add: offline_world_def)
  have m: "cache PortfolioAPI_init (cache_key plain_runtime default_request) = None"
    by (simp add: PortfolioAPI_init_def)
  have m': "(Map.empty :: string \<rightharpoonup> result) (cache_key plain_runtime default_request) = None"
    by simp
  from offline r
  have c: "compute_analysis offline_world (engine PortfolioAPI_init) default_request
             = Inl (SourceError ''unreachable'')"
    by blast
  from offline r
  have c': "compute_analysis_simple offline_world default_request = Inl (SourceError ''unreachable'')"
    by blast
  from offline m c
  have "analyze_portfolio plain_runtime offline_world PortfolioAPI_init default_request
       = (Inl (HTTPException 500 (''Error interno: '' @ str_exn (SourceError ''unreachable''))),
          PortfolioAPI_init)"
    by blast
  then have a: "analyze_portfolio plain_runtime offline_world PortfolioAPI_init default_request
       = (Inl (HTTPException 500 ''Error interno: unreachable''), PortfolioAPI_init)"
    by simp
  from offline m' c'
  have "analyze_portfolio_simple plain_runtime offline_world Map.empty default_request
       = (Inl (HTTPException 500 (''Error interno: '' @ str_exn (SourceError ''unreachable''))),
          Map.empty)"
    by blast
  then have a': "analyze_portfolio_simple plain_runtime offline_world Map.empty default_request
       = (Inl (HTTPException 500 ''Error interno: unreachable''), Map.empty)"
    by simp
  from quiet quiet_run m
  have q: "compute_analysis quiet_world (engine PortfolioAPI_init) default_request = Inr quiet_result"
    by auto
  from r m a a' quiet_run q show ?thesis
    by (intro conjI)
qed

section \<open>The batch size\<close>

text \<open>
  C8, as the code has it. The engine \<open>ParallelPortfolioEngine\<close>, which filters the
  symbols and cuts them into batches, has the default batch size 20. The size
  15 is what \<open>PortfolioAPI\<close> passes to the engine it builds, and the default of
  \<open>parallel_stock_download_simple\<close> in api\_simple.py.
\<close>

theorem batch_size_defaults:
  "ParallelPortfolioEngine_init None = ParallelPortfolioEngine_init (Some 20)
   \<and> batch_size (ParallelPortfolioEngine_init None) = 20
   \<and> batch_size (engine PortfolioAPI_init) = 15
   \<and> parallel_stock_download_simple yf stocks_list from_day to_day None
       = parallel_stock_download_simple yf stocks_list from_day to_day (Some 15)"
  by (simp add: ParallelPortfolioEngine_init_def PortfolioAPI_init_def
      parallel_stock_download_simple_def)

lemma chunks_17_20: "chunks 20 seventeen_symbols = [seventeen_symbols]"
  by (simp add: chunks_step chunks_Nil seventeen_symbols_def)

text \<open>
  C8 as stated fails for the engine: built without a batch size, it has the
  size 20 and puts seventeen symbols into one batch.
\<close>

theorem default_engine_batch_size_counterexample:
  "batch_size (ParallelPortfolioEngine_init None) = 20
   \<and> batch_size (ParallelPortfolioEngine_init None) \<noteq> 15
   \<and> stock_batches (batch_size (ParallelPortfolioEngine_init None)) seventeen_symbols
       = Inr [seventeen_symbols]"
  using chunks_17_20
  by (simp add: ParallelPortfolioEngine_init_def stock_batches_def slices_def excluded_def
      seventeen_symbols_def)

end
